theory Spec2Isabelle
  imports Complex_Main "HOL-Library.Word"
begin

section \<open>Data model\<close>

text \<open>
  The repository holds two variants of the call application: the simple one (first
  \<^verbatim>\<open>App\<close> component of \<^verbatim>\<open>src/App.tsx\<close>, with \<^verbatim>\<open>src/types.ts\<close>) and the template-based one
  (second \<^verbatim>\<open>App\<close> component, with the types of \<^verbatim>\<open>src/unnamed/part_001\<close>). Both are embedded
  here; the names of the template-based variant carry the suffix \<open>_tpl\<close> where they would
  clash.

  \<^verbatim>\<open>CallState\<close> and the speaker tags are those of the type files; the simple variant only
  ever produces \<open>User\<close> and \<open>Agent\<close> entries.
\<close>

datatype CallState = Idle | Connecting | Connected | Ended

datatype Speaker = User | Agent | System | IVR

record TranscriptEntry =
  speaker :: Speaker
  "text" :: string

text \<open>
  The fields of a \<^verbatim>\<open>LiveServerMessage\<close> that the handlers read, all below
  \<^verbatim>\<open>message.serverContent\<close>. A transcription object is identified with its text.
  \<open>modelTurn\<close> is the optional list of parts, each part given by its optional
  \<^verbatim>\<open>inlineData.data\<close> payload.
\<close>

record LiveServerMessage =
  inputTranscription :: "string option"
  outputTranscription :: "string option"
  turnComplete :: bool
  modelTurn :: "string option list option"
  interrupted :: bool

datatype error = NotAllowedError | NotSupportedError | HandshakeError | TypeError

text \<open>
  What the browser and the remote endpoint answer during one \<^verbatim>\<open>startCall\<close>: whether the
  microphone is granted, whether each audio context can be created, whether the
  handshake of \<^verbatim>\<open>ai.live.connect\<close> succeeds.
\<close>

record Setup =
  micGranted :: bool
  inputContextOk :: bool
  outputContextOk :: bool
  handshakeOk :: bool

text \<open>
  The part of the state that both variants have under the same names (the React state
  \<open>callState\<close>, \<open>transcript\<close>, \<open>isOrbListening\<close> and the cursor \<open>nextStartTime\<close>),
  followed by the environment the code acts on. Objects of the browser are numbered:
  \<open>fresh\<close> is the next unused number. \<open>openSessions\<close>, \<open>liveStreams\<close>,
  \<open>openContexts\<close> and \<open>wiredNodes\<close> are the sessions not yet closed, the microphone
  streams whose tracks are not yet stopped, the audio contexts not yet closed and the
  nodes of the capture graph not yet disconnected. \<open>started\<close> logs every
  \<^verbatim>\<open>source.start(when)\<close> as (source, when, duration of its buffer), \<open>stopped\<close> holds the
  sources on which \<^verbatim>\<open>stop()\<close> was called, and \<open>timers\<close> holds the delays of the pending
  \<^verbatim>\<open>setTimeout\<close> callbacks. Times are real numbers (seconds).
\<close>

record Pipeline =
  callState :: CallState
  transcript :: "TranscriptEntry list"
  isOrbListening :: bool
  nextStartTime :: real
  fresh :: nat
  openSessions :: "nat set"
  liveStreams :: "nat set"
  openContexts :: "nat set"
  wiredNodes :: "nat set"
  started :: "(nat \<times> real \<times> real) list"
  stopped :: "nat set"
  timers :: "nat list"

section \<open>Reading a server message\<close>

text \<open>
  \<^verbatim>\<open>message.serverContent?.modelTurn?.parts[0]?.inlineData?.data\<close>, and the test
  \<^verbatim>\<open>if (base64Audio)\<close>, which an absent payload and the empty string both fail.
\<close>

definition base64Audio :: "LiveServerMessage \<Rightarrow> string option" where
  "base64Audio m = (case modelTurn m of None \<Rightarrow> None | Some [] \<Rightarrow> None | Some (p # _) \<Rightarrow> p)"

definition audioPayload :: "LiveServerMessage \<Rightarrow> string option" where
  "audioPayload m = (case base64Audio m of None \<Rightarrow> None | Some b \<Rightarrow> if b = [] then None else Some b)"

section \<open>The simple variant\<close>

text \<open>
  The ten refs of the component and its \<open>showDialer\<close> state. \<open>closureCallState\<close> is the
  value of the constant \<^verbatim>\<open>callState\<close> in the render whose \<^verbatim>\<open>startCall\<close> opened the session:
  the \<^verbatim>\<open>endCall\<close> that the session callbacks call is the one of that render and tests that
  value.
\<close>

record App = Pipeline +
  showDialer :: bool
  sessionRef :: "nat option"
  inputAudioContextRef :: "nat option"
  outputAudioContextRef :: "nat option"
  streamRef :: "nat option"
  scriptProcessorRef :: "nat option"
  outputNodeRef :: "nat option"
  sourcesRef :: "nat set"
  currentInputTranscriptionRef :: string
  currentOutputTranscriptionRef :: string
  closureCallState :: CallState

definition cleanup :: "App \<Rightarrow> App" where
  "cleanup s = s\<lparr>
     openSessions := openSessions s - set_option (sessionRef s),
     sessionRef := None,
     liveStreams := liveStreams s - set_option (streamRef s),
     streamRef := None,
     wiredNodes := wiredNodes s - set_option (scriptProcessorRef s),
     scriptProcessorRef := None,
     openContexts := openContexts s - set_option (inputAudioContextRef s)
                       - set_option (outputAudioContextRef s),
     inputAudioContextRef := None,
     outputAudioContextRef := None,
     stopped := stopped s \<union> sourcesRef s,
     sourcesRef := {}\<rparr>"

text \<open>
  \<^verbatim>\<open>endCall\<close> tests the \<^verbatim>\<open>callState\<close> of the render it was created in, here its first
  argument. The End button of the Dialer calls the \<^verbatim>\<open>endCall\<close> of the latest render.
\<close>

definition endCall :: "CallState \<Rightarrow> App \<Rightarrow> App" where
  "endCall cs s =
     (if cs = Connected
      then (cleanup (s\<lparr>callState := Ended\<rparr>))\<lparr>timers := timers s @ [1500]\<rparr>
      else s)"

definition endBtn :: "App \<Rightarrow> App" where
  "endBtn s = endCall (callState s) s"

text \<open>The callback of the timer that \<^verbatim>\<open>endCall\<close> sets.\<close>

definition timeout :: "App \<Rightarrow> App" where
  "timeout s =
     (case timers s of
        [] \<Rightarrow> s
      | _ # ts \<Rightarrow> s\<lparr>timers := ts, callState := Idle, showDialer := False, transcript := []\<rparr>)"

text \<open>The steps of the \<^verbatim>\<open>try\<close> block of \<^verbatim>\<open>startCall\<close>, each creating one numbered object.\<close>

definition getUserMedia :: "App \<Rightarrow> App" where
  "getUserMedia s = s\<lparr>liveStreams := insert (fresh s) (liveStreams s),
                       streamRef := Some (fresh s), fresh := Suc (fresh s)\<rparr>"

definition newInputContext :: "App \<Rightarrow> App" where
  "newInputContext s = s\<lparr>openContexts := insert (fresh s) (openContexts s),
                          inputAudioContextRef := Some (fresh s), fresh := Suc (fresh s)\<rparr>"

definition newOutputContext :: "App \<Rightarrow> App" where
  "newOutputContext s = s\<lparr>openContexts := insert (fresh s) (openContexts s),
                           outputAudioContextRef := Some (fresh s), fresh := Suc (fresh s)\<rparr>"

definition createGain :: "App \<Rightarrow> App" where
  "createGain s = s\<lparr>outputNodeRef := Some (fresh s), fresh := Suc (fresh s), nextStartTime := 0\<rparr>"

definition liveConnect :: "App \<Rightarrow> App" where
  "liveConnect s = s\<lparr>openSessions := insert (fresh s) (openSessions s),
                    sessionRef := Some (fresh s), fresh := Suc (fresh s)\<rparr>"

definition startCall_try :: "CallState \<Rightarrow> Setup \<Rightarrow> App \<Rightarrow> (error \<times> App) + App" where
  "startCall_try cs e s =
     (if \<not> micGranted e then Inl (NotAllowedError, s)
      else if \<not> inputContextOk e then Inl (NotSupportedError, getUserMedia s)
      else if \<not> outputContextOk e then Inl (NotSupportedError, newInputContext (getUserMedia s))
      else if \<not> handshakeOk e
        then Inl (HandshakeError,
               (createGain (newOutputContext (newInputContext (getUserMedia s))))
                 \<lparr>closureCallState := cs\<rparr>)
      else Inr (liveConnect
               ((createGain (newOutputContext (newInputContext (getUserMedia s))))
                 \<lparr>closureCallState := cs\<rparr>)))"

text \<open>
  \<^verbatim>\<open>startCall\<close>: the guard on the \<^verbatim>\<open>callState\<close> of its render (first argument), the three
  state updates, the \<^verbatim>\<open>try\<close> block and its \<^verbatim>\<open>catch\<close>. The Call button calls the
  \<^verbatim>\<open>startCall\<close> of the latest render.
\<close>

definition startCall :: "CallState \<Rightarrow> Setup \<Rightarrow> App \<Rightarrow> App" where
  "startCall cs e s =
     (if cs \<noteq> Idle then s
      else case startCall_try cs e
                  (s\<lparr>callState := Connecting, transcript := [], isOrbListening := True\<rparr>) of
             Inl (err, s') \<Rightarrow> s'\<lparr>callState := Idle, isOrbListening := False\<rparr>
           | Inr s' \<Rightarrow> s')"

definition callBtn :: "Setup \<Rightarrow> App \<Rightarrow> App" where
  "callBtn e s = startCall (callState s) e s"

text \<open>
  \<^verbatim>\<open>onopen\<close>: a \<^verbatim>\<open>null\<close> input context makes \<^verbatim>\<open>createMediaStreamSource\<close> throw, after the
  state update. Otherwise the media stream source (a local constant) and the script
  processor are created and connected.
\<close>

definition onopen :: "App \<Rightarrow> (error \<times> App) + App" where
  "onopen s =
     (case inputAudioContextRef s of
        None \<Rightarrow> Inl (TypeError, s\<lparr>callState := Connected\<rparr>)
      | Some ctx \<Rightarrow>
          Inr (s\<lparr>callState := Connected,
                 scriptProcessorRef := Some (Suc (fresh s)),
                 wiredNodes := insert (fresh s) (insert (Suc (fresh s)) (wiredNodes s)),
                 fresh := Suc (Suc (fresh s))\<rparr>))"

text \<open>
  The state updater of the two transcription branches of \<^verbatim>\<open>onmessage\<close>: when the last
  entry has the speaker, its text is replaced by the accumulator, otherwise a new entry is
  appended. State updaters are applied where \<^verbatim>\<open>setTranscript\<close> is called.
\<close>

definition updateLast :: "Speaker \<Rightarrow> string \<Rightarrow> TranscriptEntry list \<Rightarrow> TranscriptEntry list" where
  "updateLast sp acc prev =
     (if prev \<noteq> [] \<and> speaker (last prev) = sp
      then butlast prev @ [(last prev)\<lparr>text := acc\<rparr>]
      else prev @ [\<lparr>speaker = sp, text = acc\<rparr>])"

definition onTranscription :: "LiveServerMessage \<Rightarrow> App \<Rightarrow> App" where
  "onTranscription m s =
     (case inputTranscription m of
        Some t \<Rightarrow>
          s\<lparr>currentInputTranscriptionRef := currentInputTranscriptionRef s @ t,
            transcript := updateLast User (currentInputTranscriptionRef s @ t) (transcript s)\<rparr>
      | None \<Rightarrow>
          (case outputTranscription m of
             Some t \<Rightarrow>
               s\<lparr>currentOutputTranscriptionRef := currentOutputTranscriptionRef s @ t,
                 transcript := updateLast Agent (currentOutputTranscriptionRef s @ t) (transcript s)\<rparr>
           | None \<Rightarrow> s))"

definition onTurnComplete :: "LiveServerMessage \<Rightarrow> App \<Rightarrow> App" where
  "onTurnComplete m s =
     (if turnComplete m
      then s\<lparr>currentInputTranscriptionRef := [], currentOutputTranscriptionRef := []\<rparr>
      else s)"

text \<open>
  The updater that the code passes to \<^verbatim>\<open>setTranscript\<close> reads the accumulator ref when
  React runs it, which can be after the turn-complete block of the same handler has
  emptied the ref. \<open>onTranscription\<close> applies the updater at the call.
  \<open>textBlocks_late\<close> is the other timing: the accumulator grows at the call
  (\<open>accumulate\<close>) and the updater runs after the turn-complete block (\<open>runUpdater\<close>).
  The two differ only on a message that carries both a transcription and the
  turn-complete flag.
\<close>

definition accumulate :: "LiveServerMessage \<Rightarrow> App \<Rightarrow> App" where
  "accumulate m s =
     (case inputTranscription m of
        Some t \<Rightarrow> s\<lparr>currentInputTranscriptionRef := currentInputTranscriptionRef s @ t\<rparr>
      | None \<Rightarrow>
          (case outputTranscription m of
             Some t \<Rightarrow> s\<lparr>currentOutputTranscriptionRef := currentOutputTranscriptionRef s @ t\<rparr>
           | None \<Rightarrow> s))"

definition runUpdater :: "LiveServerMessage \<Rightarrow> App \<Rightarrow> App" where
  "runUpdater m s =
     (case inputTranscription m of
        Some t \<Rightarrow> s\<lparr>transcript := updateLast User (currentInputTranscriptionRef s) (transcript s)\<rparr>
      | None \<Rightarrow>
          (case outputTranscription m of
             Some t \<Rightarrow>
               s\<lparr>transcript := updateLast Agent (currentOutputTranscriptionRef s) (transcript s)\<rparr>
           | None \<Rightarrow> s))"

definition textBlocks_late :: "LiveServerMessage \<Rightarrow> App \<Rightarrow> App" where
  "textBlocks_late m s = runUpdater m (onTurnComplete m (accumulate m s))"

text \<open>
  The audio branch. \<open>dur\<close> gives the duration of the buffer that \<^verbatim>\<open>decodeAudioData\<close>
  returns for a payload (\<^verbatim>\<open>services/audioUtils\<close> is not among the sources), \<open>clk\<close> is
  \<^verbatim>\<open>currentTime\<close> of the output context when the message is handled. A handler runs to
  its end before the next event is handled. Reading \<^verbatim>\<open>currentTime\<close> of a \<^verbatim>\<open>null\<close> context
  throws, and so does connecting to a \<^verbatim>\<open>null\<close> output node.
\<close>

definition onAudio :: "(string \<Rightarrow> real) \<Rightarrow> real \<Rightarrow> LiveServerMessage \<Rightarrow> App \<Rightarrow> (error \<times> App) + App" where
  "onAudio dur clk m s =
     (case audioPayload m of
        None \<Rightarrow> Inr s
      | Some b \<Rightarrow>
          (case outputAudioContextRef s of
             None \<Rightarrow> Inl (TypeError, s)
           | Some ctx \<Rightarrow>
               (case outputNodeRef s of
                  None \<Rightarrow> Inl (TypeError, s\<lparr>nextStartTime := max (nextStartTime s) clk,
                                              fresh := Suc (fresh s)\<rparr>)
                | Some node \<Rightarrow>
                    Inr (s\<lparr>started := started s @ [(fresh s, max (nextStartTime s) clk, dur b)],
                           nextStartTime := max (nextStartTime s) clk + dur b,
                           sourcesRef := insert (fresh s) (sourcesRef s),
                           fresh := Suc (fresh s)\<rparr>))))"

definition onInterrupted :: "LiveServerMessage \<Rightarrow> App \<Rightarrow> App" where
  "onInterrupted m s =
     (if interrupted m
      then s\<lparr>stopped := stopped s \<union> sourcesRef s, sourcesRef := {}, nextStartTime := 0\<rparr>
      else s)"

definition onmessage :: "(string \<Rightarrow> real) \<Rightarrow> real \<Rightarrow> LiveServerMessage \<Rightarrow> App \<Rightarrow> (error \<times> App) + App" where
  "onmessage dur clk m s =
     (case onAudio dur clk m (onTurnComplete m (onTranscription m s)) of
        Inl e \<Rightarrow> Inl e
      | Inr s' \<Rightarrow> Inr (onInterrupted m s'))"

text \<open>The listener for \<^verbatim>\<open>ended\<close> that the audio branch installs on a source.\<close>

definition onended :: "nat \<Rightarrow> App \<Rightarrow> App" where
  "onended src s = s\<lparr>sourcesRef := sourcesRef s - {src}\<rparr>"

text \<open>
  \<^verbatim>\<open>onerror\<close> calls the \<^verbatim>\<open>endCall\<close> of the render that started the call; \<^verbatim>\<open>onclose\<close> calls
  \<^verbatim>\<open>cleanup\<close>.
\<close>

definition onerror :: "App \<Rightarrow> App" where
  "onerror s = endCall (closureCallState s) (s\<lparr>isOrbListening := False\<rparr>)"


text \<open>The component when it is mounted.\<close>

definition init :: App where
  "init = \<lparr>callState = Idle, transcript = [], isOrbListening = False, nextStartTime = 0,
           fresh = 0, openSessions = {}, liveStreams = {}, openContexts = {},
           wiredNodes = {}, started = [], stopped = {}, timers = [],
           showDialer = False, sessionRef = None, inputAudioContextRef = None,
           outputAudioContextRef = None, streamRef = None, scriptProcessorRef = None,
           outputNodeRef = None, sourcesRef = {}, currentInputTranscriptionRef = [],
           currentOutputTranscriptionRef = [], closureCallState = Idle\<rparr>"

text \<open>
  A run of messages: each is handled in turn; a handler that throws leaves the state it
  had reached, and the later messages are still handled. The errors thrown are collected.
\<close>

fun deliver :: "(string \<Rightarrow> real) \<Rightarrow> (real \<times> LiveServerMessage) list \<Rightarrow> App \<Rightarrow> error list \<times> App" where
  "deliver dur [] s = ([], s)"
| "deliver dur ((clk, m) # es) s =
     (case onmessage dur clk m s of
        Inl (err, s') \<Rightarrow> (case deliver dur es s' of (errs, s'') \<Rightarrow> (err # errs, s''))
      | Inr s' \<Rightarrow> deliver dur es s')"

section \<open>The template-based variant\<close>

text \<open>
  The refs and the further state of the second component. \<open>ai\<close> tells whether the client
  object exists. \<open>closureTranscript\<close> is the value of the constant \<^verbatim>\<open>transcript\<close> in the
  render whose \<^verbatim>\<open>endCall\<close> the session callbacks call. \<open>summaryRequests\<close> logs the
  transcripts sent to the summary model.
\<close>

record StudioApp = Pipeline +
  ai :: bool
  lastCallTranscript :: "TranscriptEntry list option"
  summary :: string
  isSummarizing :: bool
  sessionPromise :: "nat option"
  inputAudioContext :: "nat option"
  outputAudioContext :: "nat option"
  scriptProcessor :: "nat option"
  mediaStreamSource :: "nat option"
  audioSources :: "nat set"
  currentInputTranscription :: string
  currentOutputTranscription :: string
  closureTranscript :: "TranscriptEntry list"
  summaryRequests :: "TranscriptEntry list list"

definition addTranscriptEntry :: "Speaker \<Rightarrow> string \<Rightarrow> StudioApp \<Rightarrow> StudioApp" where
  "addTranscriptEntry sp t s = s\<lparr>transcript := transcript s @ [\<lparr>speaker = sp, text = t\<rparr>]\<rparr>"

text \<open>\<^verbatim>\<open>generateSummary\<close> up to its request; the answer arrives in a later event.\<close>

definition generateSummary :: "TranscriptEntry list \<Rightarrow> StudioApp \<Rightarrow> StudioApp" where
  "generateSummary t s =
     (if \<not> ai s \<or> t = [] then s
      else s\<lparr>isSummarizing := True, summary := [], summaryRequests := summaryRequests s @ [t]\<rparr>)"

text \<open>
  \<^verbatim>\<open>endCall\<close> of this variant has no test of the call state. It reads the \<^verbatim>\<open>transcript\<close>
  of the render it was created in, here its first argument. The session is closed when
  its promise is fulfilled, taken here as at once. The microphone stream is a local
  constant of \<^verbatim>\<open>startCall\<close> and is not touched. \<open>teardown_tpl\<close> is the function up
  to the clearing of the live sources.
\<close>

definition teardown_tpl :: "StudioApp \<Rightarrow> StudioApp" where
  "teardown_tpl s = s\<lparr>
     openSessions := openSessions s - set_option (sessionPromise s),
     sessionPromise := None,
     wiredNodes := wiredNodes s - set_option (scriptProcessor s) - set_option (mediaStreamSource s),
     openContexts := openContexts s - set_option (inputAudioContext s)
                       - set_option (outputAudioContext s),
     scriptProcessor := None,
     mediaStreamSource := None,
     inputAudioContext := None,
     outputAudioContext := None,
     stopped := stopped s \<union> audioSources s,
     audioSources := {}\<rparr>"

text \<open>The hand-off to the summary when the transcript read has more than two entries.\<close>

definition handOff :: "TranscriptEntry list \<Rightarrow> StudioApp \<Rightarrow> StudioApp" where
  "handOff tr s =
     (if length tr > 2 then generateSummary tr (s\<lparr>lastCallTranscript := Some tr\<rparr>) else s)"

definition endCall_tpl :: "TranscriptEntry list \<Rightarrow> StudioApp \<Rightarrow> StudioApp" where
  "endCall_tpl tr s =
     (handOff tr (teardown_tpl s))
       \<lparr>transcript := [], isOrbListening := False, callState := Ended,
        timers := timers s @ [2000]\<rparr>"

definition endBtn_tpl :: "StudioApp \<Rightarrow> StudioApp" where
  "endBtn_tpl s = endCall_tpl (transcript s) s"

definition timeout_tpl :: "StudioApp \<Rightarrow> StudioApp" where
  "timeout_tpl s = (case timers s of [] \<Rightarrow> s | _ # ts \<Rightarrow> s\<lparr>timers := ts, callState := Idle\<rparr>)"

text \<open>
  \<^verbatim>\<open>startCall\<close>. The stream is kept in a local constant only. The promise of
  \<^verbatim>\<open>ai.live.connect\<close> is stored without being awaited, so a failing handshake is not
  caught by the \<^verbatim>\<open>try\<close> block: the promise is stored and no session opens.
\<close>

definition getUserMedia_tpl :: "StudioApp \<Rightarrow> StudioApp" where
  "getUserMedia_tpl s = s\<lparr>liveStreams := insert (fresh s) (liveStreams s), fresh := Suc (fresh s)\<rparr>"

definition newInputContext_tpl :: "StudioApp \<Rightarrow> StudioApp" where
  "newInputContext_tpl s = s\<lparr>openContexts := insert (fresh s) (openContexts s),
                              inputAudioContext := Some (fresh s), fresh := Suc (fresh s)\<rparr>"

definition newOutputContext_tpl :: "StudioApp \<Rightarrow> StudioApp" where
  "newOutputContext_tpl s = s\<lparr>openContexts := insert (fresh s) (openContexts s),
                               outputAudioContext := Some (fresh s), fresh := Suc (fresh s)\<rparr>"

definition connect_tpl :: "bool \<Rightarrow> StudioApp \<Rightarrow> StudioApp" where
  "connect_tpl ok s =
     s\<lparr>openSessions := (if ok then insert (fresh s) (openSessions s) else openSessions s),
       sessionPromise := Some (fresh s), fresh := Suc (fresh s)\<rparr>"

definition startCall_try_tpl :: "Setup \<Rightarrow> StudioApp \<Rightarrow> (error \<times> StudioApp) + StudioApp" where
  "startCall_try_tpl e s =
     (if \<not> micGranted e then Inl (NotAllowedError, s)
      else if \<not> inputContextOk e then Inl (NotSupportedError, getUserMedia_tpl s)
      else if \<not> outputContextOk e
        then Inl (NotSupportedError, newInputContext_tpl (getUserMedia_tpl s))
      else Inr (connect_tpl (handshakeOk e)
                 (newOutputContext_tpl (newInputContext_tpl (getUserMedia_tpl s)))))"

definition startCall_tpl :: "CallState \<Rightarrow> Setup \<Rightarrow> StudioApp \<Rightarrow> StudioApp" where
  "startCall_tpl cs e s =
     (if \<not> ai s \<or> cs \<noteq> Idle then s
      else case startCall_try_tpl e
                  (addTranscriptEntry System ''Initializing session...''
                     (s\<lparr>callState := Connecting, transcript := []\<rparr>)) of
             Inl (err, s') \<Rightarrow>
               (addTranscriptEntry System ''Error: Could not get microphone access.'' s')
                 \<lparr>callState := Idle\<rparr>
           | Inr s' \<Rightarrow> s')"

definition callBtn_tpl :: "Setup \<Rightarrow> StudioApp \<Rightarrow> StudioApp" where
  "callBtn_tpl e s = startCall_tpl (callState s) e s"

definition onopen_tpl :: "StudioApp \<Rightarrow> (error \<times> StudioApp) + StudioApp" where
  "onopen_tpl s =
     (case inputAudioContext s of
        None \<Rightarrow>
          Inl (TypeError,
               addTranscriptEntry System ''Connection opened. You can start speaking.''
                 (s\<lparr>callState := Connected, isOrbListening := True\<rparr>))
      | Some ctx \<Rightarrow>
          Inr ((addTranscriptEntry System ''Connection opened. You can start speaking.''
                 (s\<lparr>callState := Connected, isOrbListening := True\<rparr>))
               \<lparr>mediaStreamSource := Some (fresh s),
                scriptProcessor := Some (Suc (fresh s)),
                wiredNodes := insert (fresh s) (insert (Suc (fresh s)) (wiredNodes s)),
                fresh := Suc (Suc (fresh s))\<rparr>))"

text \<open>
  \<^verbatim>\<open>String.prototype.trim\<close>. Characters are the code units below 256; the white space
  and line terminators among them are tab, line feed, vertical tab, form feed, carriage
  return, space and no-break space.
\<close>

definition isSpace :: "char \<Rightarrow> bool" where
  "isSpace c = (c = CHR 0x09 \<or> c = CHR 0x0A \<or> c = CHR 0x0B \<or> c = CHR 0x0C
                \<or> c = CHR 0x0D \<or> c = CHR 0x20 \<or> c = CHR 0xA0)"

definition trim :: "string \<Rightarrow> string" where
  "trim s = rev (dropWhile isSpace (rev (dropWhile isSpace s)))"

text \<open>The blocks of \<^verbatim>\<open>onmessage\<close>: the two accumulators, each under its own test.\<close>

definition onTranscription_tpl :: "LiveServerMessage \<Rightarrow> StudioApp \<Rightarrow> StudioApp" where
  "onTranscription_tpl m s =
     s\<lparr>currentInputTranscription :=
         (case inputTranscription m of
            Some t \<Rightarrow> currentInputTranscription s @ t
          | None \<Rightarrow> currentInputTranscription s),
       currentOutputTranscription :=
         (case outputTranscription m of
            Some t \<Rightarrow> currentOutputTranscription s @ t
          | None \<Rightarrow> currentOutputTranscription s)\<rparr>"

definition finalEntry :: "Speaker \<Rightarrow> string \<Rightarrow> TranscriptEntry list" where
  "finalEntry sp t = (if t \<noteq> [] then [\<lparr>speaker = sp, text = t\<rparr>] else [])"

definition onTurnComplete_tpl :: "LiveServerMessage \<Rightarrow> StudioApp \<Rightarrow> StudioApp" where
  "onTurnComplete_tpl m s =
     (if turnComplete m
      then s\<lparr>transcript := transcript s
                 @ finalEntry User (trim (currentInputTranscription s))
                 @ finalEntry Agent (trim (currentOutputTranscription s)),
             currentInputTranscription := [],
             currentOutputTranscription := []\<rparr>
      else s)"

definition onAudio_tpl :: "(string \<Rightarrow> real) \<Rightarrow> real \<Rightarrow> LiveServerMessage \<Rightarrow> StudioApp \<Rightarrow> (error \<times> StudioApp) + StudioApp" where
  "onAudio_tpl dur clk m s =
     (case audioPayload m of
        None \<Rightarrow> Inr s
      | Some b \<Rightarrow>
          (case outputAudioContext s of
             None \<Rightarrow> Inl (TypeError, s\<lparr>isOrbListening := False\<rparr>)
           | Some ctx \<Rightarrow>
               Inr (s\<lparr>isOrbListening := False,
                      started := started s @ [(fresh s, max (nextStartTime s) clk, dur b)],
                      nextStartTime := max (nextStartTime s) clk + dur b,
                      audioSources := insert (fresh s) (audioSources s),
                      fresh := Suc (fresh s)\<rparr>)))"

definition onInterrupted_tpl :: "LiveServerMessage \<Rightarrow> StudioApp \<Rightarrow> StudioApp" where
  "onInterrupted_tpl m s =
     (if interrupted m
      then s\<lparr>stopped := stopped s \<union> audioSources s, audioSources := {}, nextStartTime := 0\<rparr>
      else s)"

definition onmessage_tpl :: "(string \<Rightarrow> real) \<Rightarrow> real \<Rightarrow> LiveServerMessage \<Rightarrow> StudioApp \<Rightarrow> (error \<times> StudioApp) + StudioApp" where
  "onmessage_tpl dur clk m s =
     (case onAudio_tpl dur clk m (onTurnComplete_tpl m (onTranscription_tpl m s)) of
        Inl e \<Rightarrow> Inl e
      | Inr s' \<Rightarrow> Inr (onInterrupted_tpl m s'))"

definition onended_tpl :: "nat \<Rightarrow> StudioApp \<Rightarrow> StudioApp" where
  "onended_tpl src s =
     (if audioSources s - {src} = {}
      then s\<lparr>audioSources := audioSources s - {src}, isOrbListening := True\<rparr>
      else s\<lparr>audioSources := audioSources s - {src}\<rparr>)"


definition onclose_tpl :: "StudioApp \<Rightarrow> StudioApp" where
  "onclose_tpl s =
     endCall_tpl (closureTranscript s) (addTranscriptEntry System ''Session closed.'' s)"

definition init_tpl :: StudioApp where
  "init_tpl = \<lparr>callState = Idle, transcript = [], isOrbListening = False, nextStartTime = 0,
           fresh = 0, openSessions = {}, liveStreams = {}, openContexts = {},
           wiredNodes = {}, started = [], stopped = {}, timers = [],
           ai = True, lastCallTranscript = None, summary = [], isSummarizing = False,
           sessionPromise = None, inputAudioContext = None, outputAudioContext = None,
           scriptProcessor = None, mediaStreamSource = None, audioSources = {},
           currentInputTranscription = [], currentOutputTranscription = [],
           closureTranscript = [], summaryRequests = []\<rparr>"

fun deliver_tpl :: "(string \<Rightarrow> real) \<Rightarrow> (real \<times> LiveServerMessage) list \<Rightarrow> StudioApp \<Rightarrow> error list \<times> StudioApp" where
  "deliver_tpl dur [] s = ([], s)"
| "deliver_tpl dur ((clk, m) # es) s =
     (case onmessage_tpl dur clk m s of
        Inl (err, s') \<Rightarrow> (case deliver_tpl dur es s' of (errs, s'') \<Rightarrow> (err # errs, s''))
      | Inr s' \<Rightarrow> deliver_tpl dur es s')"

section \<open>The capture callback\<close>

text \<open>
  Storing a number into an \<^verbatim>\<open>Int16Array\<close> converts it as ECMAScript's ToInt16 does: the
  number is truncated towards zero, reduced modulo \<open>2^16\<close>, and read as negative from
  \<open>2^15\<close> on. Samples are finite 32-bit floats, hence rationals, taken here as reals;
  the product with \<open>32768 = 2^15\<close> is exact in floating point.
\<close>

definition truncate_js :: "real \<Rightarrow> int" where
  "truncate_js x = (if x < 0 then - \<lfloor>- x\<rfloor> else \<lfloor>x\<rfloor>)"

definition ToInt16 :: "real \<Rightarrow> int" where
  "ToInt16 x =
     (let int16bit = truncate_js x mod 2 ^ 16
      in if int16bit \<ge> 2 ^ 15 then int16bit - 2 ^ 16 else int16bit)"

text \<open>
  The loop of \<^verbatim>\<open>onaudioprocess\<close> in the simple variant, over the index \<open>i\<close>, writing into
  the array \<open>int16\<close> (created with length \<open>l\<close>, filled with zeros).
\<close>

function fillInt16 :: "real list \<Rightarrow> nat \<Rightarrow> int list \<Rightarrow> int list" where
  "fillInt16 inputData i int16 =
     (if i < length inputData
      then fillInt16 inputData (Suc i) (int16[i := ToInt16 (inputData ! i * 32768)])
      else int16)"
  by pat_completeness auto
termination
  by (relation "measure (\<lambda>(inputData, i, int16). length inputData - i)") auto

declare fillInt16.simps [simp del]

definition onaudioprocess :: "real list \<Rightarrow> int list" where
  "onaudioprocess inputData = fillInt16 inputData 0 (replicate (length inputData) 0)"

text \<open>
  The template-based variant maps the samples (into a \<^verbatim>\<open>Float32Array\<close>, which holds the
  products exactly) and builds the \<^verbatim>\<open>Int16Array\<close> from the result.
\<close>

definition onaudioprocess_tpl :: "real list \<Rightarrow> int list" where
  "onaudioprocess_tpl inputData = map ToInt16 (map (\<lambda>x. x * 32768) inputData)"

section \<open>Auxiliary definitions\<close>

text \<open>The state a handler leaves, whether it returned or threw.\<close>

definition after :: "(error \<times> 'a) + 'a \<Rightarrow> 'a" where
  "after r = (case r of Inl (err, s) \<Rightarrow> s | Inr s \<Rightarrow> s)"

text \<open>
  The cursor arithmetic as the specification words it: a fragment arriving at clock time
  \<open>clk\<close> with duration \<open>d\<close> begins at the maximum of the cursor and \<open>clk\<close>, and the cursor
  becomes that start plus \<open>d\<close>. \<open>spec_schedule\<close> lists (start, duration) of each fragment,
  \<open>spec_cursor\<close> is the cursor after all of them.
\<close>

fun spec_schedule :: "real \<Rightarrow> (real \<times> real) list \<Rightarrow> (real \<times> real) list" where
  "spec_schedule c [] = []"
| "spec_schedule c ((clk, d) # as) = (max c clk, d) # spec_schedule (max c clk + d) as"

fun spec_cursor :: "real \<Rightarrow> (real \<times> real) list \<Rightarrow> real" where
  "spec_cursor c [] = c"
| "spec_cursor c ((clk, d) # as) = spec_cursor (max c clk + d) as"

text \<open>Clock time and decoded duration of each message of a run.\<close>

definition arrivals :: "(string \<Rightarrow> real) \<Rightarrow> (real \<times> LiveServerMessage) list \<Rightarrow> (real \<times> real) list" where
  "arrivals dur es =
     map (\<lambda>(clk, m). (clk, case audioPayload m of Some b \<Rightarrow> dur b | None \<Rightarrow> 0)) es"

text \<open>Start and duration of the fragments started between an earlier state and a later
  one, in order.\<close>

definition fragmentsOf :: "'a Pipeline_scheme \<Rightarrow> 'b Pipeline_scheme \<Rightarrow> (real \<times> real) list" where
  "fragmentsOf s s' = map snd (drop (length (started s)) (started s'))"

text \<open>What is still open in the environment, and which sources were stopped.\<close>

definition resources :: "'a Pipeline_scheme \<Rightarrow> nat set \<times> nat set \<times> nat set \<times> nat set \<times> nat set" where
  "resources s = (openSessions s, liveStreams s, openContexts s, wiredNodes s, stopped s)"

text \<open>
  A partial-text event for a speaker: a message without the turn-complete flag that carries
  that speaker's transcription, with the given text, and not the other speaker's.
\<close>

definition partialEvent :: "Speaker \<Rightarrow> string \<Rightarrow> LiveServerMessage \<Rightarrow> bool" where
  "partialEvent sp t m =
     (\<not> turnComplete m \<and>
      (case sp of
         User \<Rightarrow> inputTranscription m = Some t \<and> outputTranscription m = None
       | Agent \<Rightarrow> inputTranscription m = None \<and> outputTranscription m = Some t
       | _ \<Rightarrow> False))"

text \<open>The accumulator of a speaker, in each variant.\<close>

definition accumulator :: "Speaker \<Rightarrow> App \<Rightarrow> string" where
  "accumulator sp s =
     (if sp = User then currentInputTranscriptionRef s else currentOutputTranscriptionRef s)"

definition accumulator_tpl :: "Speaker \<Rightarrow> StudioApp \<Rightarrow> string" where
  "accumulator_tpl sp s =
     (if sp = User then currentInputTranscription s else currentOutputTranscription s)"

section \<open>Example inputs\<close>

definition setupOk :: Setup where
  "setupOk = \<lparr>micGranted = True, inputContextOk = True, outputContextOk = True,
              handshakeOk = True\<rparr>"

text \<open>A setup in which the microphone is granted, the input context is created and the
  output context cannot be created.\<close>

definition setupNoContext :: Setup where
  "setupNoContext = \<lparr>micGranted = True, inputContextOk = True, outputContextOk = False,
                     handshakeOk = True\<rparr>"

definition noContent :: LiveServerMessage where
  "noContent = \<lparr>inputTranscription = None, outputTranscription = None, turnComplete = False,
                modelTurn = None, interrupted = False\<rparr>"

definition audioMsg :: "string \<Rightarrow> LiveServerMessage" where
  "audioMsg b = noContent\<lparr>modelTurn := Some [Some b]\<rparr>"

definition userText :: "string \<Rightarrow> LiveServerMessage" where
  "userText t = noContent\<lparr>inputTranscription := Some t\<rparr>"

definition agentText :: "string \<Rightarrow> LiveServerMessage" where
  "agentText t = noContent\<lparr>outputTranscription := Some t\<rparr>"

definition turnDone :: LiveServerMessage where
  "turnDone = noContent\<lparr>turnComplete := True\<rparr>"

definition interruption :: LiveServerMessage where
  "interruption = noContent\<lparr>interrupted := True\<rparr>"

text \<open>A decoder for the examples: payload \<open>AAAA\<close> lasts 0.5 s, any other 0.3 s.\<close>

definition dur0 :: "string \<Rightarrow> real" where
  "dur0 b = (if b = ''AAAA'' then 0.5 else 0.3)"

text \<open>The state of each variant after the Call button and \<^verbatim>\<open>onopen\<close>, all going well.\<close>

definition live :: App where
  "live = after (onopen (callBtn setupOk init))"

definition live_tpl :: StudioApp where
  "live_tpl = after (onopen_tpl (callBtn_tpl setupOk init_tpl))"

text \<open>The simple variant while one reply fragment of 0.5 s, arrived at 2.0 s, is live.\<close>

definition playing :: App where
  "playing = snd (deliver dur0 [(2.0, audioMsg ''AAAA'')] live)"

text \<open>The template-based variant in the same situation.\<close>

definition playing_tpl :: StudioApp where
  "playing_tpl = snd (deliver_tpl dur0 [(2.0, audioMsg ''AAAA'')] live_tpl)"

section \<open>Properties\<close>

subsection \<open>The example states\<close>

lemma live_eq:
  "live = \<lparr>callState = Connected, transcript = [], isOrbListening = True, nextStartTime = 0,
           fresh = 7, openSessions = {4}, liveStreams = {0}, openContexts = {1, 2},
           wiredNodes = {5, 6}, started = [], stopped = {}, timers = [],
           showDialer = False, sessionRef = Some 4, inputAudioContextRef = Some 1,
           outputAudioContextRef = Some 2, streamRef = Some 0, scriptProcessorRef = Some 6,
           outputNodeRef = Some 3, sourcesRef = {}, currentInputTranscriptionRef = [],
           currentOutputTranscriptionRef = [], closureCallState = Idle\<rparr>"
  by (simp add: live_def after_def onopen_def callBtn_def startCall_def startCall_try_def
      setupOk_def init_def getUserMedia_def newInputContext_def newOutputContext_def
      createGain_def liveConnect_def insert_commute eval_nat_numeral)

lemma live_tpl_eq:
  "live_tpl = \<lparr>callState = Connected,
           transcript = [\<lparr>speaker = System, text = ''Initializing session...''\<rparr>,
                         \<lparr>speaker = System, text = ''Connection opened. You can start speaking.''\<rparr>],
           isOrbListening = True, nextStartTime = 0,
           fresh = 6, openSessions = {3}, liveStreams = {0}, openContexts = {1, 2},
           wiredNodes = {4, 5}, started = [], stopped = {}, timers = [],
           ai = True, lastCallTranscript = None, summary = [], isSummarizing = False,
           sessionPromise = Some 3, inputAudioContext = Some 1, outputAudioContext = Some 2,
           scriptProcessor = Some 5, mediaStreamSource = Some 4, audioSources = {},
           currentInputTranscription = [], currentOutputTranscription = [],
           closureTranscript = [], summaryRequests = []\<rparr>"
  by (simp add: live_tpl_def after_def onopen_tpl_def callBtn_tpl_def startCall_tpl_def
      startCall_try_tpl_def setupOk_def init_tpl_def getUserMedia_tpl_def
      newInputContext_tpl_def newOutputContext_tpl_def connect_tpl_def addTranscriptEntry_def
      insert_commute eval_nat_numeral)

text \<open>A call started from the Idle state with everything granted, and then opened, is
  Connected and has its output context and output node.\<close>

lemma started_call_ready:
  assumes "callState s = Idle"
  shows "callState (after (onopen (callBtn setupOk s))) = Connected"
    and "outputAudioContextRef (after (onopen (callBtn setupOk s))) \<noteq> None"
    and "outputNodeRef (after (onopen (callBtn setupOk s))) \<noteq> None"
  using assms
  by (simp_all add: after_def onopen_def callBtn_def startCall_def startCall_try_def
      setupOk_def getUserMedia_def newInputContext_def newOutputContext_def createGain_def
      liveConnect_def)

lemma started_call_ready_tpl:
  assumes "callState s = Idle" and "ai s"
  shows "callState (after (onopen_tpl (callBtn_tpl setupOk s))) = Connected"
    and "outputAudioContext (after (onopen_tpl (callBtn_tpl setupOk s))) \<noteq> None"
  using assms
  by (simp_all add: after_def onopen_tpl_def callBtn_tpl_def startCall_tpl_def
      startCall_try_tpl_def setupOk_def getUserMedia_tpl_def newInputContext_tpl_def
      newOutputContext_tpl_def connect_tpl_def addTranscriptEntry_def)

lemmas message_defs = noContent_def audioMsg_def userText_def agentText_def turnDone_def
  interruption_def audioPayload_def base64Audio_def

lemmas onmessage_defs = onmessage_def onAudio_def onInterrupted_def onTurnComplete_def
  onTranscription_def

lemmas onmessage_tpl_defs = onmessage_tpl_def onAudio_tpl_def onInterrupted_tpl_def
  onTurnComplete_tpl_def onTranscription_tpl_def

lemma playing_eq:
  "playing = live\<lparr>started := [(7, 2, 0.5)], nextStartTime := 2.5, sourcesRef := {7},
                  fresh := 8\<rparr>"
  by (simp add: playing_def message_defs dur0_def live_eq onmessage_defs)

lemma playing_tpl_eq:
  "playing_tpl = live_tpl\<lparr>isOrbListening := False, started := [(6, 2, 0.5)],
                          nextStartTime := 2.5, audioSources := {6}, fresh := 7\<rparr>"
  by (simp add: playing_tpl_def message_defs dur0_def live_tpl_eq onmessage_tpl_defs)

subsection \<open>Timing of the transcript updater\<close>

text \<open>On a message without the turn-complete flag it makes no difference whether the
  updater runs at the call or after the turn-complete block.\<close>

lemma updater_timing:
  "\<not> turnComplete m \<Longrightarrow> textBlocks_late m s = onTurnComplete m (onTranscription m s)"
  by (simp add: textBlocks_late_def runUpdater_def accumulate_def onTurnComplete_def
      onTranscription_def split: option.splits)

text \<open>On a message with both, the late updater reads the emptied accumulator.\<close>

lemma updater_timing_differs:
  "transcript (textBlocks_late (turnDone\<lparr>outputTranscription := Some ''Hi''\<rparr>) live)
     = [\<lparr>speaker = Agent, text = []\<rparr>]
   \<and> transcript (onTurnComplete (turnDone\<lparr>outputTranscription := Some ''Hi''\<rparr>)
                   (onTranscription (turnDone\<lparr>outputTranscription := Some ''Hi''\<rparr>) live))
     = [\<lparr>speaker = Agent, text = ''Hi''\<rparr>]"
  by (simp add: textBlocks_late_def runUpdater_def accumulate_def onTurnComplete_def
      onTranscription_def updateLast_def message_defs live_eq)

subsection \<open>Playback scheduling\<close>

lemma spec_schedule_length: "length (spec_schedule c as) = length as"
  by (induction as arbitrary: c) auto

text \<open>In the specified schedule a fragment starts where the one before it ends, or at
  its own arrival when that is later.\<close>

lemma spec_schedule_next:
  "Suc i < length as \<Longrightarrow>
   fst (spec_schedule c as ! Suc i) =
     max (fst (spec_schedule c as ! i) + snd (spec_schedule c as ! i)) (fst (as ! Suc i))"
proof (induction as arbitrary: c i)
  case Nil
  then show ?case by simp
next
  case (Cons a as)
  obtain clk d where a: "a = (clk, d)" by (cases a)
  show ?case
  proof (cases i)
    case 0
    with Cons.prems obtain a2 r where as: "as = a2 # r" by (cases as) auto
    obtain clk2 d2 where a2: "a2 = (clk2, d2)" by (cases a2)
    show ?thesis using 0 by (simp add: a as a2)
  next
    case (Suc j)
    with Cons.prems have "Suc j < length as" by simp
    from Cons.IH [OF this, of "max c clk + d"] show ?thesis by (simp add: a Suc)
  qed
qed

lemma onmessage_fragment:
  assumes "audioPayload m = Some b" "\<not> interrupted m"
    and "outputAudioContextRef s = Some c" "outputNodeRef s = Some n"
  shows "\<exists>s'. onmessage dur clk m s = Inr s'
           \<and> started s' = started s @ [(fresh s, max (nextStartTime s) clk, dur b)]
           \<and> nextStartTime s' = max (nextStartTime s) clk + dur b
           \<and> outputAudioContextRef s' = Some c \<and> outputNodeRef s' = Some n"
  using assms by (simp add: onmessage_defs split: option.splits)

lemma onmessage_tpl_fragment:
  assumes "audioPayload m = Some b" "\<not> interrupted m" and "outputAudioContext s = Some c"
  shows "\<exists>s'. onmessage_tpl dur clk m s = Inr s'
           \<and> started s' = started s @ [(fresh s, max (nextStartTime s) clk, dur b)]
           \<and> nextStartTime s' = max (nextStartTime s) clk + dur b
           \<and> outputAudioContext s' = Some c"
  using assms by (simp add: onmessage_tpl_defs split: option.splits)

lemma deliver_fragments:
  assumes "outputAudioContextRef s = Some c" "outputNodeRef s = Some n"
    and "\<forall>(clk, m) \<in> set es. audioPayload m \<noteq> None \<and> \<not> interrupted m"
  shows "fst (deliver dur es s) = []
       \<and> length (started (snd (deliver dur es s))) = length (started s) + length es
       \<and> map snd (started (snd (deliver dur es s)))
           = map snd (started s) @ spec_schedule (nextStartTime s) (arrivals dur es)
       \<and> nextStartTime (snd (deliver dur es s)) = spec_cursor (nextStartTime s) (arrivals dur es)"
  using assms
proof (induction es arbitrary: s)
  case Nil
  then show ?case by (simp add: arrivals_def)
next
  case (Cons e es)
  obtain clk m where e: "e = (clk, m)" by (cases e)
  from Cons.prems(3) obtain b where b: "audioPayload m = Some b" and ni: "\<not> interrupted m"
    by (auto simp: e)
  from onmessage_fragment [OF b ni Cons.prems(1,2), of dur clk]
  obtain s' where s': "onmessage dur clk m s = Inr s'"
    "started s' = started s @ [(fresh s, max (nextStartTime s) clk, dur b)]"
    "nextStartTime s' = max (nextStartTime s) clk + dur b"
    "outputAudioContextRef s' = Some c" "outputNodeRef s' = Some n"
    by blast
  from Cons.prems(3) have rest: "\<forall>(clk, m) \<in> set es. audioPayload m \<noteq> None \<and> \<not> interrupted m"
    by simp
  from Cons.IH [OF s'(4,5) rest] show ?case
    by (simp add: e s' b arrivals_def)
qed

lemma deliver_tpl_fragments:
  assumes "outputAudioContext s = Some c"
    and "\<forall>(clk, m) \<in> set es. audioPayload m \<noteq> None \<and> \<not> interrupted m"
  shows "fst (deliver_tpl dur es s) = []
       \<and> length (started (snd (deliver_tpl dur es s))) = length (started s) + length es
       \<and> map snd (started (snd (deliver_tpl dur es s)))
           = map snd (started s) @ spec_schedule (nextStartTime s) (arrivals dur es)
       \<and> nextStartTime (snd (deliver_tpl dur es s))
           = spec_cursor (nextStartTime s) (arrivals dur es)"
  using assms
proof (induction es arbitrary: s)
  case Nil
  then show ?case by (simp add: arrivals_def)
next
  case (Cons e es)
  obtain clk m where e: "e = (clk, m)" by (cases e)
  from Cons.prems(2) obtain b where b: "audioPayload m = Some b" and ni: "\<not> interrupted m"
    by (auto simp: e)
  from onmessage_tpl_fragment [OF b ni Cons.prems(1), of dur clk]
  obtain s' where s': "onmessage_tpl dur clk m s = Inr s'"
    "started s' = started s @ [(fresh s, max (nextStartTime s) clk, dur b)]"
    "nextStartTime s' = max (nextStartTime s) clk + dur b"
    "outputAudioContext s' = Some c"
    by blast
  from Cons.prems(2) have rest: "\<forall>(clk, m) \<in> set es. audioPayload m \<noteq> None \<and> \<not> interrupted m"
    by simp
  from Cons.IH [OF s'(4) rest] show ?case
    by (simp add: e s' b arrivals_def)
qed

lemma new_entries:
  assumes "length new = length old + n" "map snd new = map snd old @ sch"
  shows "map snd (drop (length old) new) = sch"
proof -
  have "map snd (drop (length old) new) = drop (length (map snd old)) (map snd new)"
    by (simp add: drop_map)
  also have "\<dots> = sch" by (simp add: assms(2))
  finally show ?thesis .
qed

text \<open>
  C1. In a state whose output context and output node exist (as after \<^verbatim>\<open>startCall\<close> and
  \<^verbatim>\<open>onopen\<close>), let a run of messages be handled in order, each carrying a reply audio
  fragment and none the interrupted flag. Then, in both variants, no handler throws; the
  fragments started by the run are, in order, those of the specified schedule, each
  beginning at the maximum of the cursor and the clock time of its arrival, the cursor
  then advancing by exactly its duration; and among the fragments started, fragment
  \<open>i + 1\<close> begins no earlier than fragment \<open>i\<close> ends, and exactly when it ends if
  the message of fragment \<open>i + 1\<close> arrived no later than that.
\<close>

theorem playback_back_to_back:
  assumes "outputAudioContextRef s \<noteq> None" and "outputNodeRef s \<noteq> None"
    and "outputAudioContext t \<noteq> None"
    and "\<forall>(clk, m) \<in> set es. audioPayload m \<noteq> None \<and> \<not> interrupted m"
  shows "fst (deliver dur es s) = []
       \<and> fragmentsOf s (snd (deliver dur es s))
           = spec_schedule (nextStartTime s) (arrivals dur es)
       \<and> nextStartTime (snd (deliver dur es s)) = spec_cursor (nextStartTime s) (arrivals dur es)
       \<and> fst (deliver_tpl dur es t) = []
       \<and> fragmentsOf t (snd (deliver_tpl dur es t))
           = spec_schedule (nextStartTime t) (arrivals dur es)
       \<and> nextStartTime (snd (deliver_tpl dur es t))
           = spec_cursor (nextStartTime t) (arrivals dur es)
       \<and> (Suc i < length es \<longrightarrow>
            fst (fragmentsOf s (snd (deliver dur es s)) ! i)
              + snd (fragmentsOf s (snd (deliver dur es s)) ! i)
              \<le> fst (fragmentsOf s (snd (deliver dur es s)) ! Suc i)
          \<and> (fst (es ! Suc i)
                \<le> fst (fragmentsOf s (snd (deliver dur es s)) ! i)
                    + snd (fragmentsOf s (snd (deliver dur es s)) ! i)
              \<longrightarrow> fst (fragmentsOf s (snd (deliver dur es s)) ! Suc i)
                    = fst (fragmentsOf s (snd (deliver dur es s)) ! i)
                      + snd (fragmentsOf s (snd (deliver dur es s)) ! i))
          \<and> fst (fragmentsOf t (snd (deliver_tpl dur es t)) ! i)
              + snd (fragmentsOf t (snd (deliver_tpl dur es t)) ! i)
              \<le> fst (fragmentsOf t (snd (deliver_tpl dur es t)) ! Suc i)
          \<and> (fst (es ! Suc i)
                \<le> fst (fragmentsOf t (snd (deliver_tpl dur es t)) ! i)
                    + snd (fragmentsOf t (snd (deliver_tpl dur es t)) ! i)
              \<longrightarrow> fst (fragmentsOf t (snd (deliver_tpl dur es t)) ! Suc i)
                    = fst (fragmentsOf t (snd (deliver_tpl dur es t)) ! i)
                      + snd (fragmentsOf t (snd (deliver_tpl dur es t)) ! i)))"
proof -
  from assms(1,2) obtain x n where r: "outputAudioContextRef s = Some x" "outputNodeRef s = Some n"
    by auto
  from assms(3) obtain y where rt: "outputAudioContext t = Some y" by auto
  note A = deliver_fragments [OF r assms(4), of dur]
  note B = deliver_tpl_fragments [OF rt assms(4), of dur]
  have A2: "fragmentsOf s (snd (deliver dur es s))
           = spec_schedule (nextStartTime s) (arrivals dur es)"
    unfolding fragmentsOf_def
    using A by (intro new_entries [where n = "length es"]) simp_all
  have B2: "fragmentsOf t (snd (deliver_tpl dur es t))
           = spec_schedule (nextStartTime t) (arrivals dur es)"
    unfolding fragmentsOf_def
    using B by (intro new_entries [where n = "length es"]) simp_all
  have C: "fst (spec_schedule c (arrivals dur es) ! Suc i)
        = max (fst (spec_schedule c (arrivals dur es) ! i) + snd (spec_schedule c (arrivals dur es) ! i))
              (fst (es ! Suc i))" if "Suc i < length es" for c
  proof -
    from that have l: "Suc i < length (arrivals dur es)" by (simp add: arrivals_def)
    have "fst (arrivals dur es ! Suc i) = fst (es ! Suc i)"
      using that by (simp add: arrivals_def split: prod.splits)
    with spec_schedule_next [OF l, of c] show ?thesis by simp
  qed
  have D: "fst (spec_schedule c (arrivals dur es) ! i) + snd (spec_schedule c (arrivals dur es) ! i)
              \<le> fst (spec_schedule c (arrivals dur es) ! Suc i)
          \<and> (fst (es ! Suc i)
                \<le> fst (spec_schedule c (arrivals dur es) ! i)
                    + snd (spec_schedule c (arrivals dur es) ! i)
              \<longrightarrow> fst (spec_schedule c (arrivals dur es) ! Suc i)
                    = fst (spec_schedule c (arrivals dur es) ! i)
                      + snd (spec_schedule c (arrivals dur es) ! i))"
    if "Suc i < length es" for c
    using C [OF that, of c] by simp
  from A have A1: "fst (deliver dur es s) = []"
    "nextStartTime (snd (deliver dur es s)) = spec_cursor (nextStartTime s) (arrivals dur es)"
    by simp_all
  from B have B1: "fst (deliver_tpl dur es t) = []"
    "nextStartTime (snd (deliver_tpl dur es t)) = spec_cursor (nextStartTime t) (arrivals dur es)"
    by simp_all
  show ?thesis
    unfolding A2 B2
    using A1 B1 D [of "nextStartTime s"] D [of "nextStartTime t"] by blast
qed

text \<open>The scenario of the specification: 0.5 s arriving at 2.0 s, then 0.3 s arriving at
  2.2 s, in both variants.\<close>

theorem playback_back_to_back_witness:
  "outputAudioContextRef live \<noteq> None \<and> outputNodeRef live \<noteq> None
   \<and> outputAudioContext live_tpl \<noteq> None
   \<and> audioPayload (audioMsg ''AAAA'') \<noteq> None \<and> \<not> interrupted (audioMsg ''AAAA'')
   \<and> audioPayload (audioMsg ''BB'') \<noteq> None \<and> \<not> interrupted (audioMsg ''BB'')
   \<and> fragmentsOf live
        (snd (deliver dur0 [(2.0, audioMsg ''AAAA''), (2.2, audioMsg ''BB'')] live))
       = [(2.0, 0.5), (2.5, 0.3)]
   \<and> nextStartTime (snd (deliver dur0 [(2.0, audioMsg ''AAAA''), (2.2, audioMsg ''BB'')] live)) = 2.8
   \<and> fragmentsOf live_tpl
        (snd (deliver_tpl dur0 [(2.0, audioMsg ''AAAA''), (2.2, audioMsg ''BB'')] live_tpl))
       = [(2.0, 0.5), (2.5, 0.3)]
   \<and> nextStartTime
        (snd (deliver_tpl dur0 [(2.0, audioMsg ''AAAA''), (2.2, audioMsg ''BB'')] live_tpl)) = 2.8"
proof -
  let ?es = "[(2.0, audioMsg ''AAAA''), (2.2, audioMsg ''BB'')] :: (real \<times> LiveServerMessage) list"
  have h: "outputAudioContextRef live \<noteq> None" "outputNodeRef live \<noteq> None"
    "outputAudioContext live_tpl \<noteq> None"
    "\<forall>(clk, m) \<in> set ?es. audioPayload m \<noteq> None \<and> \<not> interrupted m"
    by (simp_all add: live_eq live_tpl_eq message_defs)
  have st: "nextStartTime live = 0" "nextStartTime live_tpl = 0"
    by (simp_all add: live_eq live_tpl_eq)
  have ar: "arrivals dur0 ?es = [(2.0, 0.5), (2.2, 0.3)]"
    by (simp add: arrivals_def dur0_def message_defs)
  have sch: "spec_schedule 0 [(2.0, 0.5), (2.2, 0.3)] = [(2.0, 0.5), (2.5, 0.3 :: real)]"
    "spec_cursor 0 [(2.0, 0.5), (2.2, 0.3)] = (2.8 :: real)"
    by simp_all
  note T = playback_back_to_back [OF h, of dur0 0, unfolded st ar sch]
  from T have "fragmentsOf live (snd (deliver dur0 ?es live)) = [(2.0, 0.5), (2.5, 0.3)]"
    "nextStartTime (snd (deliver dur0 ?es live)) = 2.8"
    "fragmentsOf live_tpl (snd (deliver_tpl dur0 ?es live_tpl)) = [(2.0, 0.5), (2.5, 0.3)]"
    "nextStartTime (snd (deliver_tpl dur0 ?es live_tpl)) = 2.8"
    by blast+
  with h(1-3) show ?thesis by (simp add: message_defs)
qed

subsection \<open>Interruption\<close>

text \<open>
  C2. A message with the interrupted flag, handled in any state with any number of live
  fragments, stops every source of the live set, leaves the set empty and sets
  \<open>nextStartTime\<close> to zero, in both variants. The handler reaches its interruption block
  when the message carries no audio payload or the output context (and, in the simple
  variant, the output node) exists.
\<close>

theorem interruption_flushes:
  assumes "interrupted m"
    and "audioPayload m = None \<or> (outputAudioContextRef s \<noteq> None \<and> outputNodeRef s \<noteq> None)"
    and "audioPayload m = None \<or> outputAudioContext t \<noteq> None"
  shows "(\<exists>s'. onmessage dur clk m s = Inr s' \<and> sourcesRef s' = {} \<and> nextStartTime s' = 0
              \<and> sourcesRef s \<subseteq> stopped s')
       \<and> (\<exists>t'. onmessage_tpl dur clk m t = Inr t' \<and> audioSources t' = {} \<and> nextStartTime t' = 0
              \<and> audioSources t \<subseteq> stopped t')"
proof
  show "\<exists>s'. onmessage dur clk m s = Inr s' \<and> sourcesRef s' = {} \<and> nextStartTime s' = 0
              \<and> sourcesRef s \<subseteq> stopped s'"
    using assms(1,2) by (auto simp: onmessage_defs split: option.splits)
next
  show "\<exists>t'. onmessage_tpl dur clk m t = Inr t' \<and> audioSources t' = {} \<and> nextStartTime t' = 0
              \<and> audioSources t \<subseteq> stopped t'"
    using assms(1,3) by (auto simp: onmessage_tpl_defs split: option.splits)
qed

text \<open>The scenario of the specification: three live fragments and a cursor of 5.0 s.\<close>

theorem interruption_flushes_witness:
  "interrupted interruption \<and> audioPayload interruption = None
   \<and> (\<exists>s'. onmessage dur0 6 interruption (live\<lparr>sourcesRef := {7, 8, 9}, nextStartTime := 5\<rparr>) = Inr s'
          \<and> sourcesRef s' = {} \<and> nextStartTime s' = 0 \<and> {7, 8, 9} \<subseteq> stopped s')
   \<and> (\<exists>t'. onmessage_tpl dur0 6 interruption (live_tpl\<lparr>audioSources := {6, 7, 8}, nextStartTime := 5\<rparr>) = Inr t'
          \<and> audioSources t' = {} \<and> nextStartTime t' = 0 \<and> {6, 7, 8} \<subseteq> stopped t')"
proof -
  have h: "interrupted interruption" "audioPayload interruption = None"
    by (simp_all add: message_defs)
  from interruption_flushes [OF h(1) disjI1 [OF h(2)] disjI1 [OF h(2)],
      where s = "live\<lparr>sourcesRef := {7, 8, 9}, nextStartTime := 5\<rparr>" and dur = dur0
        and clk = 6 and t = "live_tpl\<lparr>audioSources := {6, 7, 8}, nextStartTime := 5\<rparr>"] h
  show ?thesis by simp
qed

subsection \<open>Transcript aggregation\<close>

lemma deliver_after:
  "snd (deliver dur ((clk, m) # es) s) = snd (deliver dur es (after (onmessage dur clk m s)))"
  by (simp add: after_def split: sum.splits prod.splits)

lemma deliver_tpl_after:
  "snd (deliver_tpl dur ((clk, m) # es) s)
     = snd (deliver_tpl dur es (after (onmessage_tpl dur clk m s)))"
  by (simp add: after_def split: sum.splits prod.splits)

text \<open>The audio and interruption blocks leave the transcript and the accumulators alone.\<close>

lemma after_onmessage_text:
  "transcript (after (onmessage dur clk m s)) = transcript (onTurnComplete m (onTranscription m s))"
  "currentInputTranscriptionRef (after (onmessage dur clk m s))
     = currentInputTranscriptionRef (onTurnComplete m (onTranscription m s))"
  "currentOutputTranscriptionRef (after (onmessage dur clk m s))
     = currentOutputTranscriptionRef (onTurnComplete m (onTranscription m s))"
  by (simp_all add: after_def onmessage_def onAudio_def onInterrupted_def
      split: option.splits)

lemma after_onmessage_tpl_text:
  "transcript (after (onmessage_tpl dur clk m s))
     = transcript (onTurnComplete_tpl m (onTranscription_tpl m s))"
  "currentInputTranscription (after (onmessage_tpl dur clk m s))
     = currentInputTranscription (onTurnComplete_tpl m (onTranscription_tpl m s))"
  "currentOutputTranscription (after (onmessage_tpl dur clk m s))
     = currentOutputTranscription (onTurnComplete_tpl m (onTranscription_tpl m s))"
  by (simp_all add: after_def onmessage_tpl_def onAudio_tpl_def onInterrupted_tpl_def
      split: option.splits)

lemma partial_step:
  assumes "partialEvent sp t m"
  shows "transcript (after (onmessage dur clk m s))
           = updateLast sp (accumulator sp s @ t) (transcript s)"
    and "accumulator sp (after (onmessage dur clk m s)) = accumulator sp s @ t"
  using assms
  by (auto simp: partialEvent_def accumulator_def after_onmessage_text onTurnComplete_def
      onTranscription_def split: Speaker.splits)

lemma partial_step_tpl:
  assumes "partialEvent sp t m"
  shows "transcript (after (onmessage_tpl dur clk m s)) = transcript s"
    and "accumulator_tpl sp (after (onmessage_tpl dur clk m s)) = accumulator_tpl sp s @ t"
  using assms
  by (auto simp: partialEvent_def accumulator_tpl_def after_onmessage_tpl_text
      onTurnComplete_tpl_def onTranscription_tpl_def split: Speaker.splits)

text \<open>Once the last entry is the open entry of the speaker, further partial events of
  that speaker rewrite it with the grown accumulator.\<close>

lemma partial_run_open:
  assumes "list_all2 (\<lambda>t (clk, m). partialEvent sp t m) ts es"
    and "transcript s = pre @ [\<lparr>speaker = sp, text = accumulator sp s\<rparr>]"
  shows "transcript (snd (deliver dur es s))
           = pre @ [\<lparr>speaker = sp, text = accumulator sp s @ concat ts\<rparr>]"
  using assms
proof (induction ts es arbitrary: s rule: list_all2_induct)
  case Nil
  then show ?case by simp
next
  case (Cons t ts e es)
  obtain clk m where e: "e = (clk, m)" by (cases e)
  with Cons.hyps(1) have pe: "partialEvent sp t m" by simp
  let ?s' = "after (onmessage dur clk m s)"
  have acc: "accumulator sp ?s' = accumulator sp s @ t"
    by (rule partial_step(2) [OF pe])
  have "transcript ?s' = updateLast sp (accumulator sp s @ t) (transcript s)"
    by (rule partial_step(1) [OF pe])
  with Cons.prems have "transcript ?s' = pre @ [\<lparr>speaker = sp, text = accumulator sp ?s'\<rparr>]"
    by (simp add: updateLast_def acc)
  from Cons.IH [OF this] show ?case
    by (simp add: e deliver_after acc del: deliver.simps)
qed

lemma partial_run:
  assumes "list_all2 (\<lambda>t (clk, m). partialEvent sp t m) ts es" and "ts \<noteq> []"
    and "accumulator sp s = []"
    and "transcript s = [] \<or> speaker (last (transcript s)) \<noteq> sp"
  shows "transcript (snd (deliver dur es s)) = transcript s @ [\<lparr>speaker = sp, text = concat ts\<rparr>]"
proof -
  from assms(1,2) obtain t ts' e es' where ts: "ts = t # ts'" and es: "es = e # es'"
    and hd: "(\<lambda>t (clk, m). partialEvent sp t m) t e"
    and tl: "list_all2 (\<lambda>t (clk, m). partialEvent sp t m) ts' es'"
    by (cases ts; cases es) auto
  obtain clk m where e: "e = (clk, m)" by (cases e)
  with hd have pe: "partialEvent sp t m" by simp
  let ?s' = "after (onmessage dur clk m s)"
  have acc: "accumulator sp ?s' = t"
    using partial_step(2) [OF pe, of dur clk s] assms(3) by simp
  have "transcript ?s' = updateLast sp t (transcript s)"
    using partial_step(1) [OF pe, of dur clk s] assms(3) by simp
  with assms(4) have "transcript ?s' = transcript s @ [\<lparr>speaker = sp, text = accumulator sp ?s'\<rparr>]"
    by (auto simp: updateLast_def acc)
  from partial_run_open [OF tl this, of dur] show ?thesis
    by (simp add: ts es e deliver_after acc del: deliver.simps)
qed

lemma partial_run_tpl:
  assumes "list_all2 (\<lambda>t (clk, m). partialEvent sp t m) ts es"
  shows "transcript (snd (deliver_tpl dur es s)) = transcript s
       \<and> accumulator_tpl sp (snd (deliver_tpl dur es s)) = accumulator_tpl sp s @ concat ts"
  using assms
proof (induction ts es arbitrary: s rule: list_all2_induct)
  case Nil
  then show ?case by simp
next
  case (Cons t ts e es)
  obtain clk m where e: "e = (clk, m)" by (cases e)
  with Cons.hyps(1) have pe: "partialEvent sp t m" by simp
  from Cons.IH [of "after (onmessage_tpl dur clk m s)"] show ?case
    by (simp add: e deliver_tpl_after partial_step_tpl [OF pe] del: deliver_tpl.simps)
qed

text \<open>
  C3, as amended. Let a non-empty run of partial-text events of one speaker be handled,
  with no turn-complete flag among them. In the simple variant, when the speaker's
  accumulator is empty before the run and the transcript is empty or ends with an entry
  of another speaker, the transcript after the run is the transcript before it followed
  by exactly one entry of that speaker, whose text is the concatenation of the texts of
  the events in order. In the template-based variant the run adds no entry to the
  transcript: it extends the speaker's accumulator by that concatenation.
\<close>

theorem partial_events_one_entry:
  assumes "list_all2 (\<lambda>t (clk, m). partialEvent sp t m) ts es" and "ts \<noteq> []"
    and "accumulator sp s = []"
    and "transcript s = [] \<or> speaker (last (transcript s)) \<noteq> sp"
  shows "transcript (snd (deliver dur es s)) = transcript s @ [\<lparr>speaker = sp, text = concat ts\<rparr>]
       \<and> transcript (snd (deliver_tpl dur es t)) = transcript t
       \<and> accumulator_tpl sp (snd (deliver_tpl dur es t)) = accumulator_tpl sp t @ concat ts"
  using partial_run [OF assms, of dur] partial_run_tpl [OF assms(1), of dur t] by simp

text \<open>The scenario of the specification: "Hel" then "lo" for the user.\<close>

theorem partial_events_one_entry_witness:
  "list_all2 (\<lambda>t (clk, m). partialEvent User t m) [''Hel'', ''lo'']
      [(0, userText ''Hel''), (1, userText ''lo'')]
   \<and> accumulator User live = [] \<and> transcript live = []
   \<and> transcript (snd (deliver dur0 [(0, userText ''Hel''), (1, userText ''lo'')] live))
       = [\<lparr>speaker = User, text = ''Hello''\<rparr>]
   \<and> transcript (snd (deliver_tpl dur0 [(0, userText ''Hel''), (1, userText ''lo'')] live_tpl))
       = transcript live_tpl
   \<and> currentInputTranscription
        (snd (deliver_tpl dur0 [(0, userText ''Hel''), (1, userText ''lo'')] live_tpl)) = ''Hello''"
proof -
  have h: "list_all2 (\<lambda>t (clk, m). partialEvent User t m) [''Hel'', ''lo'']
      [(0, userText ''Hel''), (1, userText ''lo'')]"
    "[''Hel'', ''lo''] \<noteq> []" "accumulator User live = []"
    "transcript live = [] \<or> speaker (last (transcript live)) \<noteq> User"
    by (simp_all add: partialEvent_def message_defs accumulator_def live_eq)
  have l: "transcript live = []" "accumulator_tpl User live_tpl = []"
    by (simp_all add: live_eq live_tpl_eq accumulator_tpl_def)
  have a: "accumulator_tpl User x = currentInputTranscription x" for x
    by (simp add: accumulator_tpl_def)
  from partial_events_one_entry [OF h, of dur0 live_tpl] h(1,3) l show ?thesis
    unfolding a by simp
qed

text \<open>
  The claim as stated fails on the template-based variant: after a partial-text event of
  the user, the transcript still holds its two System entries and no entry of the user.
\<close>

theorem partial_events_one_entry_counterexample:
  "partialEvent User ''Hel'' (userText ''Hel'')
   \<and> map speaker (transcript (snd (deliver_tpl dur0 [(0, userText ''Hel'')] live_tpl)))
       = [System, System]"
  by (simp add: partialEvent_def message_defs live_tpl_eq onmessage_tpl_defs)

subsection \<open>Turn completion\<close>

text \<open>A turn-complete flag empties both accumulators, in both variants.\<close>

lemma turn_complete_resets:
  assumes "turnComplete m"
  shows "currentInputTranscriptionRef (after (onmessage dur clk m s)) = []"
    and "currentOutputTranscriptionRef (after (onmessage dur clk m s)) = []"
    and "currentInputTranscription (after (onmessage_tpl dur clk m t)) = []"
    and "currentOutputTranscription (after (onmessage_tpl dur clk m t)) = []"
  using assms
  by (simp_all add: after_onmessage_text after_onmessage_tpl_text onTurnComplete_def
      onTurnComplete_tpl_def)

text \<open>The template-based variant only ever appends to the transcript in \<^verbatim>\<open>onmessage\<close>.\<close>

lemma onmessage_tpl_appends:
  "\<exists>new. transcript (after (onmessage_tpl dur clk m t)) = transcript t @ new"
  by (simp add: after_onmessage_tpl_text onTurnComplete_tpl_def onTranscription_tpl_def)

text \<open>
  C4. In the simple variant the claim fails: the updater takes any last entry of the
  speaker for the open one. The agent says "Hi", the turn completes (the accumulator is
  emptied and the entry is final), and the agent's next partial text "Bye" replaces the
  text of the finalized entry instead of opening a new one.
\<close>

theorem finalized_entry_overwritten:
  "transcript (snd (deliver dur0 [(0, agentText ''Hi''), (1, turnDone)] live))
     = [\<lparr>speaker = Agent, text = ''Hi''\<rparr>]
   \<and> currentOutputTranscriptionRef (snd (deliver dur0 [(0, agentText ''Hi''), (1, turnDone)] live))
     = []
   \<and> transcript
       (snd (deliver dur0 [(0, agentText ''Hi''), (1, turnDone), (2, agentText ''Bye'')] live))
     = [\<lparr>speaker = Agent, text = ''Bye''\<rparr>]"
  by (simp add: message_defs live_eq onmessage_defs updateLast_def)

subsection \<open>Ending a call\<close>

lemma endCall_noop: "cs \<noteq> Connected \<Longrightarrow> endCall cs s = s"
  by (simp add: endCall_def)

text \<open>
  C5, as amended. In the simple variant, \<^verbatim>\<open>endCall\<close> in any state other than Connected
  changes nothing at all: session, resources, transcript, timers and call state are as
  before. The \<^verbatim>\<open>endCall\<close> of the template-based variant tests no state: called in any
  state, with whatever transcript its closure holds, it closes the session, the two audio
  contexts and the two capture nodes that its refs hold and clears these five refs, stops
  and clears the live sources, clears the transcript, sets the call state to Ended and
  sets the timer whose callback sets it to Idle.
\<close>

theorem end_outside_connected:
  "(cs \<noteq> Connected \<longrightarrow> endCall cs s = s)
   \<and> (callState s \<noteq> Connected \<longrightarrow> endBtn s = s)
   \<and> endBtn_tpl t = endCall_tpl (transcript t) t
   \<and> callState (endCall_tpl tr t) = Ended
   \<and> timers (endCall_tpl tr t) = timers t @ [2000]
   \<and> callState (timeout_tpl (endCall_tpl tr t)) = Idle
   \<and> transcript (endCall_tpl tr t) = []
   \<and> openSessions (endCall_tpl tr t) = openSessions t - set_option (sessionPromise t)
   \<and> openContexts (endCall_tpl tr t)
       = openContexts t - set_option (inputAudioContext t) - set_option (outputAudioContext t)
   \<and> wiredNodes (endCall_tpl tr t)
       = wiredNodes t - set_option (scriptProcessor t) - set_option (mediaStreamSource t)
   \<and> stopped (endCall_tpl tr t) = stopped t \<union> audioSources t
   \<and> audioSources (endCall_tpl tr t) = {}
   \<and> sessionPromise (endCall_tpl tr t) = None
   \<and> scriptProcessor (endCall_tpl tr t) = None
   \<and> mediaStreamSource (endCall_tpl tr t) = None
   \<and> inputAudioContext (endCall_tpl tr t) = None
   \<and> outputAudioContext (endCall_tpl tr t) = None"
proof -
  have "timers (endCall_tpl tr t) = timers t @ [2000]"
    by (simp add: endCall_tpl_def)
  then have "timers (endCall_tpl tr t) \<noteq> []" by simp
  then have "callState (timeout_tpl (endCall_tpl tr t)) = Idle"
    by (simp add: timeout_tpl_def split: list.splits)
  then show ?thesis
    by (simp add: endBtn_def endCall_def endBtn_tpl_def endCall_tpl_def handOff_def
        generateSummary_def teardown_tpl_def)
qed

text \<open>
  In the simple variant: the Idle state left by a start that failed after the microphone
  was granted (its stream live, its input context open), and the Ended state after the
  End button, in both of which the End button changes nothing. In the template-based
  variant: the End button while a fragment is live, which closes the session, both
  contexts and both capture nodes and stops the source.
\<close>

theorem end_outside_connected_witness:
  "callState (callBtn setupNoContext init) = Idle
   \<and> liveStreams (callBtn setupNoContext init) = {0}
   \<and> openContexts (callBtn setupNoContext init) = {1}
   \<and> endBtn (callBtn setupNoContext init) = callBtn setupNoContext init
   \<and> callState (endBtn playing) = Ended
   \<and> timers (endBtn playing) = [1500]
   \<and> endBtn (endBtn playing) = endBtn playing
   \<and> resources playing_tpl = ({3}, {0}, {1, 2}, {4, 5}, {})
   \<and> audioSources playing_tpl = {6}
   \<and> resources (endBtn_tpl playing_tpl) = ({}, {0}, {}, {}, {6})
   \<and> audioSources (endBtn_tpl playing_tpl) = {}
   \<and> callState (endBtn_tpl playing_tpl) = Ended
   \<and> transcript (endBtn_tpl playing_tpl) = []
   \<and> timers (endBtn_tpl playing_tpl) = [2000]
   \<and> callState (timeout_tpl (endBtn_tpl playing_tpl)) = Idle"
proof -
  let ?f = "callBtn setupNoContext init"
  have f: "callState ?f = Idle" "liveStreams ?f = {0}" "openContexts ?f = {1}"
    by (simp_all add: setupNoContext_def init_def callBtn_def startCall_def startCall_try_def
        getUserMedia_def newInputContext_def)
  have e: "callState (endBtn playing) = Ended" "timers (endBtn playing) = [1500]"
    by (simp_all add: endBtn_def endCall_def cleanup_def playing_eq live_eq)
  have p: "resources playing_tpl = ({3}, {0}, {1, 2}, {4, 5}, {})" "audioSources playing_tpl = {6}"
    "sessionPromise playing_tpl = Some 3" "inputAudioContext playing_tpl = Some 1"
    "outputAudioContext playing_tpl = Some 2" "scriptProcessor playing_tpl = Some 5"
    "mediaStreamSource playing_tpl = Some 4" "timers playing_tpl = []"
    "openSessions playing_tpl = {3}" "openContexts playing_tpl = {1, 2}"
    "wiredNodes playing_tpl = {4, 5}" "stopped playing_tpl = {}" "liveStreams playing_tpl = {0}"
    by (simp_all add: resources_def playing_tpl_eq live_tpl_eq)
  have l: "liveStreams (endBtn_tpl playing_tpl) = {0}"
    by (simp add: endBtn_tpl_def endCall_tpl_def handOff_def generateSummary_def
        teardown_tpl_def p)
  note A = end_outside_connected [where s = ?f and t = playing_tpl
      and tr = "transcript playing_tpl" and cs = Idle]
  note B = end_outside_connected [where s = "endBtn playing" and t = playing_tpl
      and tr = "transcript playing_tpl" and cs = Ended]
  from A f have a: "endBtn ?f = ?f" by simp
  from B e have b: "endBtn (endBtn playing) = endBtn playing" by simp
  from A have t: "endBtn_tpl playing_tpl = endCall_tpl (transcript playing_tpl) playing_tpl"
    by blast
  from A have c: "callState (endBtn_tpl playing_tpl) = Ended"
    "transcript (endBtn_tpl playing_tpl) = []"
    "timers (endBtn_tpl playing_tpl) = [2000]"
    "callState (timeout_tpl (endBtn_tpl playing_tpl)) = Idle"
    "audioSources (endBtn_tpl playing_tpl) = {}"
    "openSessions (endBtn_tpl playing_tpl) = {}"
    "openContexts (endBtn_tpl playing_tpl) = {}"
    "wiredNodes (endBtn_tpl playing_tpl) = {}"
    "stopped (endBtn_tpl playing_tpl) = {6}"
    unfolding t by (auto simp: p)
  have r: "resources (endBtn_tpl playing_tpl) = ({}, {0}, {}, {}, {6})"
    by (simp add: resources_def c l)
  from f a e b p(1,2) r c show ?thesis by simp
qed

text \<open>
  The claim as stated fails on the template-based variant. The End button is pressed while
  Connected; the close event that follows finds the state Ended, and the \<^verbatim>\<open>endCall\<close> that
  \<^verbatim>\<open>onclose\<close> then calls is no no-op: it clears the transcript again and sets a second
  timer.
\<close>

theorem end_outside_connected_counterexample:
  "callState live_tpl = Connected
   \<and> callState (endBtn_tpl live_tpl) = Ended
   \<and> timers (endBtn_tpl live_tpl) = [2000]
   \<and> onclose_tpl (endBtn_tpl live_tpl)
       = endCall_tpl [] (addTranscriptEntry System ''Session closed.'' (endBtn_tpl live_tpl))
   \<and> transcript (addTranscriptEntry System ''Session closed.'' (endBtn_tpl live_tpl))
       = [\<lparr>speaker = System, text = ''Session closed.''\<rparr>]
   \<and> transcript (onclose_tpl (endBtn_tpl live_tpl)) = []
   \<and> timers (onclose_tpl (endBtn_tpl live_tpl)) = [2000, 2000]"
  by (simp add: live_tpl_eq onclose_tpl_def endBtn_tpl_def endCall_tpl_def handOff_def
      generateSummary_def teardown_tpl_def addTranscriptEntry_def)

text \<open>
  C6, as amended. After the End button in the Connected state, in both variants every
  source of the live set has been stopped and the live set is empty. \<^verbatim>\<open>endCall\<close> of the
  simple variant leaves \<open>nextStartTime\<close> as it was; there the cursor is set to zero by
  the next \<^verbatim>\<open>startCall\<close>, once it has created its audio contexts.
\<close>

theorem end_flushes_playback:
  assumes "callState s = Connected" and "callState t = Connected"
  shows "sourcesRef (endBtn s) = {} \<and> sourcesRef s \<subseteq> stopped (endBtn s)
       \<and> nextStartTime (endBtn s) = nextStartTime s
       \<and> audioSources (endBtn_tpl t) = {} \<and> audioSources t \<subseteq> stopped (endBtn_tpl t)
       \<and> (callState s' = Idle \<and> micGranted e \<and> inputContextOk e \<and> outputContextOk e
            \<longrightarrow> nextStartTime (callBtn e s') = 0)"
  using assms
  by (simp add: endBtn_def endCall_def cleanup_def endBtn_tpl_def endCall_tpl_def handOff_def
      generateSummary_def teardown_tpl_def callBtn_def startCall_def startCall_try_def
      getUserMedia_def newInputContext_def newOutputContext_def createGain_def liveConnect_def)

theorem end_flushes_playback_witness:
  "callState playing = Connected \<and> callState live_tpl = Connected
   \<and> sourcesRef playing = {7} \<and> sourcesRef (endBtn playing) = {}
   \<and> 7 \<in> stopped (endBtn playing)
   \<and> nextStartTime (endBtn playing) = 2.5
   \<and> callState (timeout (endBtn playing)) = Idle
   \<and> nextStartTime (callBtn setupOk (timeout (endBtn playing))) = 0"
proof -
  have h: "callState playing = Connected" "callState live_tpl = Connected"
    by (simp_all add: playing_eq live_eq live_tpl_eq)
  have i: "callState (timeout (endBtn playing)) = Idle"
    by (simp add: timeout_def endBtn_def endCall_def cleanup_def playing_eq live_eq)
  have k: "micGranted setupOk \<and> inputContextOk setupOk \<and> outputContextOk setupOk"
    by (simp add: setupOk_def)
  have p: "sourcesRef playing = {7}" "nextStartTime playing = 2.5"
    by (simp_all add: playing_eq)
  from end_flushes_playback [OF h, of "timeout (endBtn playing)" setupOk] h i k p
  show ?thesis by auto
qed

text \<open>The claim as stated fails: in the simple variant, the End button pressed while a
  fragment scheduled up to 2.5 s is live leaves the cursor at 2.5 s.\<close>

theorem end_flushes_playback_counterexample:
  "callState playing = Connected \<and> nextStartTime (endBtn playing) = 2.5"
  by (simp add: playing_eq live_eq endBtn_def endCall_def cleanup_def)

subsection \<open>Remote error and close\<close>

text \<open>
  In the simple variant the \<^verbatim>\<open>endCall\<close> reached from \<^verbatim>\<open>onerror\<close> belongs to the render in
  which the call was started, whose \<^verbatim>\<open>callState\<close> is Idle: a start that passes the guard
  records Idle, and with it \<^verbatim>\<open>onerror\<close> only clears the listening indicator.
\<close>

lemma started_closure_idle:
  "callState s = Idle \<Longrightarrow> micGranted e \<Longrightarrow> inputContextOk e \<Longrightarrow> outputContextOk e
     \<Longrightarrow> closureCallState (callBtn e s) = Idle"
  by (simp add: callBtn_def startCall_def startCall_try_def liveConnect_def)

lemma onerror_stale:
  "closureCallState s \<noteq> Connected \<Longrightarrow> onerror s = s\<lparr>isOrbListening := False\<rparr>"
  by (simp add: onerror_def endCall_def)




subsection \<open>Failure during start\<close>

text \<open>A start that fails in its \<^verbatim>\<open>try\<close> block ends in the Idle state; when it is the
  microphone that is denied, nothing has been acquired.\<close>

lemma failed_start_idle:
  assumes "callState s = Idle" and "\<not> (micGranted e \<and> inputContextOk e \<and> outputContextOk e \<and> handshakeOk e)"
  shows "callState (callBtn e s) = Idle"
  using assms by (auto simp: callBtn_def startCall_def startCall_try_def)

lemma mic_denied_acquires_nothing:
  assumes "callState s = Idle" and "\<not> micGranted e"
  shows "resources (callBtn e s) = resources s"
    and "ai t \<Longrightarrow> callState t = Idle \<Longrightarrow> resources (callBtn_tpl e t) = resources t"
  using assms
  by (simp_all add: resources_def callBtn_def startCall_def startCall_try_def callBtn_tpl_def
      startCall_tpl_def startCall_try_tpl_def addTranscriptEntry_def)

text \<open>
  C8. The \<^verbatim>\<open>catch\<close> block of \<^verbatim>\<open>startCall\<close> sets the state to Idle and releases nothing.
  When the microphone is granted, the input audio context is created and the output audio
  context cannot be created, both variants are Idle again with the microphone stream
  still live and the input context still open and referenced; the simple variant still
  holds the stream in \<open>streamRef\<close>.
\<close>

theorem failed_start_keeps_resources:
  "callState (callBtn setupNoContext init) = Idle
   \<and> streamRef (callBtn setupNoContext init) = Some 0
   \<and> liveStreams (callBtn setupNoContext init) = {0}
   \<and> inputAudioContextRef (callBtn setupNoContext init) = Some 1
   \<and> openContexts (callBtn setupNoContext init) = {1}
   \<and> callState (callBtn_tpl setupNoContext init_tpl) = Idle
   \<and> liveStreams (callBtn_tpl setupNoContext init_tpl) = {0}
   \<and> inputAudioContext (callBtn_tpl setupNoContext init_tpl) = Some 1
   \<and> openContexts (callBtn_tpl setupNoContext init_tpl) = {1}"
  by (simp add: setupNoContext_def init_def init_tpl_def callBtn_def
      startCall_def startCall_try_def callBtn_tpl_def startCall_tpl_def startCall_try_tpl_def
      getUserMedia_def newInputContext_def getUserMedia_tpl_def newInputContext_tpl_def
      addTranscriptEntry_def)

subsection \<open>Sample conversion\<close>

lemma signed_reading:
  "(k + 32768) mod 65536 - 32768
     = (if k mod 65536 \<ge> 32768 then k mod 65536 - 65536 else k mod 65536)" for k :: int
proof -
  define r where "r = k mod 65536"
  have r: "0 \<le> r" "r < 65536" by (simp_all add: r_def)
  have e: "(k + 32768) mod 65536 = (r + 32768) mod 65536"
    unfolding r_def by (rule mod_add_left_eq [symmetric])
  show ?thesis
  proof (cases "32768 \<le> r")
    case True
    have "r + 32768 = r - 32768 + 65536" by simp
    then have "(r + 32768) mod 65536 = (r - 32768 + 65536) mod 65536" by (rule arg_cong)
    also have "\<dots> = (r - 32768) mod 65536" by (simp only: mod_add_self2)
    also have "\<dots> = r - 32768" using True r by (intro mod_pos_pos_trivial) simp_all
    finally show ?thesis using True e unfolding r_def [symmetric] by simp
  next
    case False
    then have "(r + 32768) mod 65536 = r + 32768" using r by (intro mod_pos_pos_trivial) simp_all
    then show ?thesis using False e unfolding r_def [symmetric] by simp
  qed
qed

lemma sint_16: "sint (word_of_int k :: 16 word) = (k + 32768) mod 65536 - 32768" for k :: int
  by (simp add: sint_sbintrunc' signed_take_bit_eq_take_bit_shift take_bit_eq_mod)

lemma ToInt16_word: "ToInt16 x = sint (word_of_int (truncate_js x) :: 16 word)"
  by (simp add: ToInt16_def Let_def sint_16 signed_reading)

lemma ToInt16_in_range:
  assumes "- 32768 < truncate_js y" and "truncate_js y < 32768"
  shows "ToInt16 y = truncate_js y"
proof -
  from assms have "(truncate_js y + 32768) mod 65536 = truncate_js y + 32768"
    by (intro mod_pos_pos_trivial) simp_all
  then show ?thesis by (simp add: ToInt16_word sint_16)
qed

lemma fillInt16_eq:
  "i \<le> length inputData \<Longrightarrow> length int16 = length inputData \<Longrightarrow>
   fillInt16 inputData i int16
     = take i int16 @ map (\<lambda>x. ToInt16 (x * 32768)) (drop i inputData)"
proof (induction inputData i int16 rule: fillInt16.induct)
  case (1 inputData i int16)
  show ?case
  proof (cases "i < length inputData")
    case True
    let ?v = "ToInt16 (inputData ! i * 32768)"
    have "fillInt16 inputData i int16 = fillInt16 inputData (Suc i) (int16[i := ?v])"
      using True by (subst fillInt16.simps) simp
    also have "\<dots> = take (Suc i) (int16[i := ?v])
                    @ map (\<lambda>x. ToInt16 (x * 32768)) (drop (Suc i) inputData)"
      using True "1.prems" by (intro "1.IH") simp_all
    also have "take (Suc i) (int16[i := ?v]) = take i int16 @ [?v]"
      using True "1.prems" by (simp add: take_Suc_conv_app_nth)
    also have "(take i int16 @ [?v]) @ map (\<lambda>x. ToInt16 (x * 32768)) (drop (Suc i) inputData)
             = take i int16 @ map (\<lambda>x. ToInt16 (x * 32768)) (drop i inputData)"
      using True by (simp add: Cons_nth_drop_Suc [symmetric])
    finally show ?thesis .
  next
    case False
    with "1.prems" show ?thesis by (subst fillInt16.simps) simp
  qed
qed

lemma onaudioprocess_map:
  "onaudioprocess inputData = map (\<lambda>x. ToInt16 (x * 32768)) inputData"
  by (simp add: onaudioprocess_def fillInt16_eq)

lemma truncate_js_small:
  assumes "\<bar>y\<bar> < 32768"
  shows "- 32768 < truncate_js y \<and> truncate_js y < 32768"
proof (cases "y < 0")
  case True
  then have t: "truncate_js y = - \<lfloor>- y\<rfloor>" by (simp add: truncate_js_def)
  have "\<lfloor>- y\<rfloor> < 32768" using True assms by (simp add: floor_less_iff)
  moreover have "0 \<le> \<lfloor>- y\<rfloor>" using True by simp
  ultimately show ?thesis unfolding t by linarith
next
  case False
  then have t: "truncate_js y = \<lfloor>y\<rfloor>" by (simp add: truncate_js_def)
  have "\<lfloor>y\<rfloor> < 32768" using False assms by (simp add: floor_less_iff)
  moreover have "0 \<le> \<lfloor>y\<rfloor>" using False by simp
  ultimately show ?thesis unfolding t by linarith
qed

text \<open>
  C9. Every sample \<open>x\<close> of a captured block is emitted, in both variants, as the signed
  16-bit reading of the truncation of \<open>x * 32768\<close>: that truncation reduced modulo
  \<open>2^16\<close> into the range from \<open>-32768\<close> to \<open>32767\<close>. Nothing is clamped: a sample
  with \<open>|x| < 1\<close> is emitted as the truncation itself, and the sample \<open>1\<close> wraps
  around to \<open>-32768\<close>.
\<close>

theorem sample_conversion_wraps:
  assumes "i < length inputData"
  shows "length (onaudioprocess inputData) = length inputData
       \<and> onaudioprocess inputData ! i
           = sint (word_of_int (truncate_js (inputData ! i * 32768)) :: 16 word)
       \<and> onaudioprocess_tpl inputData = onaudioprocess inputData
       \<and> - 32768 \<le> onaudioprocess inputData ! i \<and> onaudioprocess inputData ! i \<le> 32767
       \<and> (\<bar>inputData ! i\<bar> < 1
            \<longrightarrow> onaudioprocess inputData ! i = truncate_js (inputData ! i * 32768))
       \<and> (inputData ! i = 1 \<longrightarrow> onaudioprocess inputData ! i = - 32768)"
proof -
  let ?x = "inputData ! i"
  have v: "onaudioprocess inputData ! i = ToInt16 (?x * 32768)"
    using assms by (simp add: onaudioprocess_map)
  have r: "- 32768 \<le> ToInt16 y \<and> ToInt16 y \<le> 32767" for y
  proof -
    define q where "q = truncate_js y mod 65536"
    have "0 \<le> q" "q < 65536" by (simp_all add: q_def)
    moreover have "ToInt16 y = (if q \<ge> 32768 then q - 65536 else q)"
      by (simp add: ToInt16_def Let_def q_def)
    ultimately show ?thesis by (simp split: if_splits)
  qed
  have s: "ToInt16 (?x * 32768) = truncate_js (?x * 32768)" if "\<bar>?x\<bar> < 1"
  proof -
    from that have "\<bar>?x * 32768\<bar> < 32768" by (simp add: abs_mult)
    from truncate_js_small [OF this] show ?thesis
      by (intro ToInt16_in_range) simp_all
  qed
  have w: "ToInt16 (1 * 32768) = - 32768"
    by (simp add: ToInt16_def truncate_js_def)
  have l: "length (onaudioprocess inputData) = length inputData"
    by (simp add: onaudioprocess_map)
  have t: "onaudioprocess_tpl inputData = onaudioprocess inputData"
    by (simp add: onaudioprocess_map onaudioprocess_tpl_def)
  have g: "onaudioprocess inputData ! i
           = sint (word_of_int (truncate_js (?x * 32768)) :: 16 word)"
    by (simp only: v ToInt16_word)
  have w': "?x = 1 \<longrightarrow> onaudioprocess inputData ! i = - 32768"
    using w by (simp add: v)
  have s': "\<bar>?x\<bar> < 1 \<longrightarrow> onaudioprocess inputData ! i = truncate_js (?x * 32768)"
    using s by (simp add: v)
  from r [of "?x * 32768"] have r': "- 32768 \<le> onaudioprocess inputData ! i"
    "onaudioprocess inputData ! i \<le> 32767"
    by (simp_all add: v)
  from l g t r' s' w' show ?thesis by blast
qed

theorem sample_conversion_wraps_witness:
  "(2::nat) < length [0.5, - 0.25, 1, - 1.5 :: real]
   \<and> onaudioprocess [0.5, - 0.25, 1, - 1.5] ! 2 = - 32768
   \<and> onaudioprocess_tpl [0.5, - 0.25, 1, - 1.5] = onaudioprocess [0.5, - 0.25, 1, - 1.5]
   \<and> sint (word_of_int (truncate_js (- 1.5 * 32768)) :: 16 word) = 16384"
proof -
  have h: "(2::nat) < length [0.5, - 0.25, 1, - 1.5 :: real]" by simp
  have e: "[0.5, - 0.25, 1, - 1.5 :: real] ! 2 = 1" by simp
  have k: "sint (word_of_int (truncate_js (- 1.5 * 32768)) :: 16 word) = 16384"
    by (simp add: truncate_js_def)
  from sample_conversion_wraps [OF h] e h k show ?thesis by simp
qed

subsection \<open>Transcript of the template-based variant\<close>

text \<open>
  C10. In the template-based variant, whatever the state and the message, the handler
  changes the transcript only by appending, and only when the message carries the
  turn-complete flag: first a User entry with the trimmed input accumulator (the text of
  the message included) if that is not empty, then an Agent entry with the trimmed output
  accumulator if that is not empty. Without the flag the transcript stays as it is and
  the texts are kept in the accumulators; with it both accumulators are emptied.
\<close>

theorem template_entries_at_turn_complete:
  "transcript (after (onmessage_tpl dur clk m s))
     = transcript s
       @ (if turnComplete m
          then (if trim (currentInputTranscription s
                          @ (case inputTranscription m of Some x \<Rightarrow> x | None \<Rightarrow> [])) \<noteq> []
                then [\<lparr>speaker = User,
                       text = trim (currentInputTranscription s
                          @ (case inputTranscription m of Some x \<Rightarrow> x | None \<Rightarrow> []))\<rparr>]
                else [])
             @ (if trim (currentOutputTranscription s
                          @ (case outputTranscription m of Some x \<Rightarrow> x | None \<Rightarrow> [])) \<noteq> []
                then [\<lparr>speaker = Agent,
                       text = trim (currentOutputTranscription s
                          @ (case outputTranscription m of Some x \<Rightarrow> x | None \<Rightarrow> []))\<rparr>]
                else [])
          else [])
   \<and> currentInputTranscription (after (onmessage_tpl dur clk m s))
       = (if turnComplete m then []
          else currentInputTranscription s
                 @ (case inputTranscription m of Some x \<Rightarrow> x | None \<Rightarrow> []))
   \<and> currentOutputTranscription (after (onmessage_tpl dur clk m s))
       = (if turnComplete m then []
          else currentOutputTranscription s
                 @ (case outputTranscription m of Some x \<Rightarrow> x | None \<Rightarrow> []))"
  by (simp add: after_onmessage_tpl_text onTurnComplete_tpl_def onTranscription_tpl_def
      finalEntry_def split: option.splits)

text \<open>A turn in which the user said " Hel", "lo " and the agent " Hi", the last text
  arriving with the turn-complete flag; and a turn with white space only.\<close>

theorem template_entries_at_turn_complete_witness:
  "transcript (after (onmessage_tpl dur0 3 (turnDone\<lparr>outputTranscription := Some '' Hi''\<rparr>)
       (snd (deliver_tpl dur0 [(0, userText '' Hel''), (1, userText ''lo '')] live_tpl))))
     = transcript live_tpl
       @ [\<lparr>speaker = User, text = ''Hello''\<rparr>, \<lparr>speaker = Agent, text = ''Hi''\<rparr>]
   \<and> transcript (snd (deliver_tpl dur0 [(0, userText '' Hel''), (1, userText ''lo '')] live_tpl))
     = transcript live_tpl
   \<and> transcript (after (onmessage_tpl dur0 3 turnDone
       (live_tpl\<lparr>currentInputTranscription := ''  ''\<rparr>)))
     = transcript live_tpl"
proof -
  let ?s = "snd (deliver_tpl dur0 [(0, userText '' Hel''), (1, userText ''lo '')] live_tpl)"
  have a: "currentInputTranscription ?s = '' Hello ''" "currentOutputTranscription ?s = []"
    "transcript ?s = transcript live_tpl"
    by (simp_all add: message_defs live_tpl_eq onmessage_tpl_defs)
  have t: "trim '' Hello '' = ''Hello''" "trim '' Hi'' = ''Hi''" "trim ''  '' = []" "trim [] = []"
    by (simp_all add: trim_def isSpace_def)
  have m: "turnComplete (turnDone\<lparr>outputTranscription := Some '' Hi''\<rparr>)"
    "inputTranscription (turnDone\<lparr>outputTranscription := Some '' Hi''\<rparr>) = None"
    "outputTranscription (turnDone\<lparr>outputTranscription := Some '' Hi''\<rparr>) = Some '' Hi''"
    "turnComplete turnDone" "inputTranscription turnDone = None"
    "outputTranscription turnDone = None"
    by (simp_all add: message_defs)
  have b: "currentInputTranscription (live_tpl\<lparr>currentInputTranscription := ''  ''\<rparr>) = ''  ''"
    "currentOutputTranscription (live_tpl\<lparr>currentInputTranscription := ''  ''\<rparr>) = []"
    "transcript (live_tpl\<lparr>currentInputTranscription := ''  ''\<rparr>) = transcript live_tpl"
    by (simp_all add: live_tpl_eq)
  from template_entries_at_turn_complete
         [of dur0 3 "turnDone\<lparr>outputTranscription := Some '' Hi''\<rparr>" ?s]
       template_entries_at_turn_complete
         [of dur0 3 turnDone "live_tpl\<lparr>currentInputTranscription := ''  ''\<rparr>"]
  show ?thesis
    by (simp only: a t m b option.case if_True if_False append_Nil append_Nil2 append_Cons
        simp_thms list.distinct not_False_eq_True refl)
qed

end
